theory Spec2Isabelle
  imports Complex_Main
begin

section \<open>Floating-point values\<close>

text \<open>
  The program computes with Python and NumPy double-precision floats. A float is modelled
  as an extended real with a NaN: \<open>Fin r\<close> is the finite value \<open>r\<close>, \<open>PInf\<close> and
  \<open>NInf\<close> are the two infinities, \<open>NaN\<close> is not-a-number. The special values follow
  IEEE 754 (NaN is absorbing and compares unequal to everything, \<open>inf - inf\<close> and
  \<open>0 * inf\<close> and \<open>0 / 0\<close> are NaN, NumPy division by zero gives an infinity and raises
  nothing). Arithmetic on finite values is exact: rounding, overflow of a finite result
  and the sign of zero are not modelled (a zero divisor counts as \<open>+0\<close>).
\<close>

datatype pyfloat = Fin real | PInf | NInf | NaN

datatype error = ValueError

fun fneg :: "pyfloat \<Rightarrow> pyfloat" where
  "fneg (Fin a) = Fin (- a)"
| "fneg PInf = NInf"
| "fneg NInf = PInf"
| "fneg NaN = NaN"

fun fadd :: "pyfloat \<Rightarrow> pyfloat \<Rightarrow> pyfloat" where
  "fadd (Fin a) (Fin b) = Fin (a + b)"
| "fadd NaN y = NaN"
| "fadd x NaN = NaN"
| "fadd PInf NInf = NaN"
| "fadd NInf PInf = NaN"
| "fadd PInf y = PInf"
| "fadd x PInf = PInf"
| "fadd NInf y = NInf"
| "fadd x NInf = NInf"

definition fsub :: "pyfloat \<Rightarrow> pyfloat \<Rightarrow> pyfloat" where
  "fsub x y = fadd x (fneg y)"

definition signed_inf :: "bool \<Rightarrow> pyfloat" where
  "signed_inf positive = (if positive then PInf else NInf)"

fun fmul :: "pyfloat \<Rightarrow> pyfloat \<Rightarrow> pyfloat" where
  "fmul (Fin a) (Fin b) = Fin (a * b)"
| "fmul NaN y = NaN"
| "fmul x NaN = NaN"
| "fmul (Fin a) PInf = (if a = 0 then NaN else signed_inf (0 < a))"
| "fmul (Fin a) NInf = (if a = 0 then NaN else signed_inf (a < 0))"
| "fmul PInf (Fin b) = (if b = 0 then NaN else signed_inf (0 < b))"
| "fmul NInf (Fin b) = (if b = 0 then NaN else signed_inf (b < 0))"
| "fmul PInf PInf = PInf"
| "fmul PInf NInf = NInf"
| "fmul NInf PInf = NInf"
| "fmul NInf NInf = PInf"

fun fdiv :: "pyfloat \<Rightarrow> pyfloat \<Rightarrow> pyfloat" where
  "fdiv (Fin a) (Fin b) =
     (if b = 0 then (if a = 0 then NaN else signed_inf (0 < a)) else Fin (a / b))"
| "fdiv NaN y = NaN"
| "fdiv x NaN = NaN"
| "fdiv (Fin a) PInf = Fin 0"
| "fdiv (Fin a) NInf = Fin 0"
| "fdiv PInf (Fin b) = signed_inf (0 \<le> b)"
| "fdiv NInf (Fin b) = signed_inf (b < 0)"
| "fdiv PInf PInf = NaN"
| "fdiv PInf NInf = NaN"
| "fdiv NInf PInf = NaN"
| "fdiv NInf NInf = NaN"

fun fabs :: "pyfloat \<Rightarrow> pyfloat" where
  "fabs (Fin a) = Fin \<bar>a\<bar>"
| "fabs PInf = PInf"
| "fabs NInf = PInf"
| "fabs NaN = NaN"

text \<open>The comparisons \<open>==\<close> and \<open>>\<close>: false whenever an operand is NaN.\<close>

fun feq :: "pyfloat \<Rightarrow> pyfloat \<Rightarrow> bool" where
  "feq (Fin a) (Fin b) = (a = b)"
| "feq PInf PInf = True"
| "feq NInf NInf = True"
| "feq x y = False"

fun fgt :: "pyfloat \<Rightarrow> pyfloat \<Rightarrow> bool" where
  "fgt (Fin a) (Fin b) = (b < a)"
| "fgt NaN y = False"
| "fgt x NaN = False"
| "fgt PInf PInf = False"
| "fgt PInf y = True"
| "fgt x NInf = (x \<noteq> NInf)"
| "fgt x PInf = False"
| "fgt NInf y = False"

text \<open>\<open>x ** 2\<close> on a NumPy float.\<close>

definition fpow2 :: "pyfloat \<Rightarrow> pyfloat" where
  "fpow2 x = fmul x x"

text \<open>
  \<open>math.sqrt\<close>: raises \<open>ValueError\<close> (math domain error) on a negative argument,
  returns NaN on NaN and \<open>inf\<close> on \<open>inf\<close>.
\<close>

fun math_sqrt :: "pyfloat \<Rightarrow> error + pyfloat" where
  "math_sqrt (Fin a) = (if a < 0 then Inl ValueError else Inr (Fin (sqrt a)))"
| "math_sqrt PInf = Inr PInf"
| "math_sqrt NInf = Inl ValueError"
| "math_sqrt NaN = Inr NaN"

text \<open>
  \<open>np.nan_to_num\<close> with its default arguments: NaN becomes \<open>0.0\<close>, positive infinity
  the largest finite double and negative infinity the most negative finite double;
  a finite value is returned as it is.
\<close>

definition dbl_max :: real where
  "dbl_max = (2 ^ 53 - 1) * 2 ^ 971"

fun nan_to_num :: "pyfloat \<Rightarrow> pyfloat" where
  "nan_to_num (Fin a) = Fin a"
| "nan_to_num PInf = Fin dbl_max"
| "nan_to_num NInf = Fin (- dbl_max)"
| "nan_to_num NaN = Fin 0"

text \<open>A NumPy boolean summed as a number.\<close>

definition of_bool_f :: "bool \<Rightarrow> pyfloat" where
  "of_bool_f b = Fin (if b then 1 else 0)"

text \<open>
  Python's \<open>max\<close> on a list: \<open>ValueError\<close> on the empty list, otherwise the first
  element is kept until a later one compares greater with \<open>>\<close>.
\<close>

fun py_max :: "pyfloat list \<Rightarrow> error + pyfloat" where
  "py_max [] = Inl ValueError"
| "py_max (x # xs) = Inr (foldl (\<lambda>m item. if fgt item m then item else m) x xs)"

section \<open>GaussianExponentialParameters\<close>

record GaussianExponentialParameters =
  beta :: pyfloat
  mu :: pyfloat
  sigma :: pyfloat
  proportion :: pyfloat

text \<open>
  The constructor: each field is the keyword argument of that name when one is passed,
  and the default otherwise.
\<close>

definition kwarg :: "(string \<rightharpoonup> pyfloat) \<Rightarrow> string \<Rightarrow> pyfloat \<Rightarrow> pyfloat" where
  "kwarg kwargs name dflt = (case kwargs name of None \<Rightarrow> dflt | Some v \<Rightarrow> v)"

definition parameters_init :: "(string \<rightharpoonup> pyfloat) \<Rightarrow> GaussianExponentialParameters" where
  "parameters_init kwargs =
     \<lparr>beta = kwarg kwargs ''beta'' (Fin 1),
      mu = kwarg kwargs ''mu'' (Fin 0),
      sigma = kwarg kwargs ''sigma'' (Fin 100),
      proportion = kwarg kwargs ''proportion'' (Fin (1 / 2))\<rparr>"

definition as_list :: "GaussianExponentialParameters \<Rightarrow> pyfloat list" where
  "as_list p = [beta p, mu p, sigma p, proportion p]"

definition max_parameter_difference ::
  "GaussianExponentialParameters \<Rightarrow> GaussianExponentialParameters \<Rightarrow> error + pyfloat" where
  "max_parameter_difference self other =
     py_max (map (\<lambda>i. fabs (fsub (fst i) (snd i))) (zip (as_list self) (as_list other)))"

section \<open>The density primitives\<close>

text \<open>
  \<open>stats.norm(loc, scale)\<close> and \<open>stats.expon(loc, scale)\<close> build frozen SciPy
  distributions: objects that hold the location and the scale they were built with.
  Their \<open>pdf\<close> and \<open>logpdf\<close> methods are library code; the estimator is parameterised
  by them.
\<close>

record rv_frozen =
  loc :: pyfloat
  scale :: pyfloat

record primitives =
  norm_pdf :: "rv_frozen \<Rightarrow> pyfloat \<Rightarrow> pyfloat"
  norm_logpdf :: "rv_frozen \<Rightarrow> pyfloat \<Rightarrow> pyfloat"
  expon_pdf :: "rv_frozen \<Rightarrow> pyfloat \<Rightarrow> pyfloat"
  expon_logpdf :: "rv_frozen \<Rightarrow> pyfloat \<Rightarrow> pyfloat"

section \<open>GaussianExponentialMixture\<close>

text \<open>The estimator's attributes; \<open>exp_loc\<close> is the attribute \<open>_exp_loc\<close>.\<close>

record GaussianExponentialMixture =
  convergence_tolerance :: pyfloat
  data :: "pyfloat list"
  exp_loc :: pyfloat
  parameters :: GaussianExponentialParameters
  parameters_updated :: GaussianExponentialParameters
  max_iterations :: int
  expon :: rv_frozen
  norm_rv :: rv_frozen

definition mixture_init ::
  "pyfloat list \<Rightarrow> pyfloat \<Rightarrow> int \<Rightarrow> pyfloat \<Rightarrow> (string \<rightharpoonup> pyfloat) \<Rightarrow> GaussianExponentialMixture" where
  "mixture_init dat el max_iters tol kwargs =
     \<lparr>convergence_tolerance = tol,
      data = dat,
      exp_loc = el,
      parameters = parameters_init kwargs,
      parameters_updated = parameters_init kwargs,
      max_iterations = max_iters,
      expon = \<lparr>loc = el, scale = beta (parameters_init kwargs)\<rparr>,
      norm_rv = \<lparr>loc = mu (parameters_init kwargs), scale = sigma (parameters_init kwargs)\<rparr>\<rparr>"

text \<open>Python's \<open>sum\<close>: the elements are added from the left, starting at 0.\<close>

definition py_sum :: "pyfloat list \<Rightarrow> pyfloat" where
  "py_sum xs = foldl fadd (Fin 0) xs"

text \<open>
  \<open>_apply_and_sum\<close>: \<open>np.vectorize(func)\<close> raises \<open>ValueError\<close> on an input of size 0
  (it cannot find the output type); otherwise the results are summed.
\<close>

definition apply_and_sum :: "(pyfloat \<Rightarrow> pyfloat) \<Rightarrow> pyfloat list \<Rightarrow> error + pyfloat" where
  "apply_and_sum func xs = (if xs = [] then Inl ValueError else Inr (py_sum (map func xs)))"

text \<open>
  \<open>_expectation_is_gaussian\<close>. The integers 0 and 1 of its early returns only enter
  float arithmetic afterwards and are the floats of the same value here.
\<close>

definition expectation_is_gaussian ::
  "primitives \<Rightarrow> GaussianExponentialMixture \<Rightarrow> pyfloat \<Rightarrow> pyfloat" where
  "expectation_is_gaussian P s val =
     (let gaussian_density = norm_pdf P (norm_rv s) val;
          exponential_density = expon_pdf P (expon s) val
      in if feq exponential_density NaN then Fin 1
         else if feq gaussian_density NaN then Fin 0
         else if feq (proportion (parameters s)) (Fin 0) then Fin 0
         else
           (let probability_gaussian = fmul gaussian_density (proportion (parameters s));
                probability_exponential =
                  fmul exponential_density (fsub (Fin 1) (proportion (parameters s)))
            in fdiv probability_gaussian (fadd probability_gaussian probability_exponential)))"

text \<open>
  The four updates. Each takes the state and returns the state with one field of the
  candidate \<open>parameters_updated\<close> replaced, or the error that was raised. The
  responsibility is evaluated in the state the update runs in; \<open>update_sigma\<close> reads
  the candidate's \<open>mu\<close> of that state.
\<close>

definition update_beta ::
  "primitives \<Rightarrow> GaussianExponentialMixture \<Rightarrow> error + GaussianExponentialMixture" where
  "update_beta P s =
     (case apply_and_sum (\<lambda>x. fmul (fsub (Fin 1) (expectation_is_gaussian P s x)) x) (data s) of
        Inl e \<Rightarrow> Inl e
      | Inr num \<Rightarrow>
          (case apply_and_sum (\<lambda>x. fsub (Fin 1) (expectation_is_gaussian P s x)) (data s) of
             Inl e \<Rightarrow> Inl e
           | Inr den \<Rightarrow>
               Inr (s\<lparr>parameters_updated := (parameters_updated s)\<lparr>beta := fdiv num den\<rparr>\<rparr>)))"

definition update_mu ::
  "primitives \<Rightarrow> GaussianExponentialMixture \<Rightarrow> error + GaussianExponentialMixture" where
  "update_mu P s =
     (case apply_and_sum (\<lambda>x. fmul (expectation_is_gaussian P s x) x) (data s) of
        Inl e \<Rightarrow> Inl e
      | Inr num \<Rightarrow>
          (case apply_and_sum (\<lambda>x. expectation_is_gaussian P s x) (data s) of
             Inl e \<Rightarrow> Inl e
           | Inr den \<Rightarrow>
               Inr (s\<lparr>parameters_updated := (parameters_updated s)\<lparr>mu := fdiv num den\<rparr>\<rparr>)))"

definition update_sigma ::
  "primitives \<Rightarrow> GaussianExponentialMixture \<Rightarrow> error + GaussianExponentialMixture" where
  "update_sigma P s =
     (case apply_and_sum
             (\<lambda>x. fmul (expectation_is_gaussian P s x)
                        (fpow2 (fsub x (mu (parameters_updated s))))) (data s) of
        Inl e \<Rightarrow> Inl e
      | Inr num \<Rightarrow>
          (case apply_and_sum (\<lambda>x. expectation_is_gaussian P s x) (data s) of
             Inl e \<Rightarrow> Inl e
           | Inr den \<Rightarrow>
               (case math_sqrt (fdiv num den) of
                  Inl e \<Rightarrow> Inl e
                | Inr sd \<Rightarrow>
                    Inr (s\<lparr>parameters_updated := (parameters_updated s)\<lparr>sigma := sd\<rparr>\<rparr>))))"

definition update_proportion ::
  "primitives \<Rightarrow> GaussianExponentialMixture \<Rightarrow> error + GaussianExponentialMixture" where
  "update_proportion P s =
     (case apply_and_sum
             (\<lambda>x. of_bool_f (fgt (nan_to_num (norm_logpdf P (norm_rv s) x))
                                  (nan_to_num (expon_logpdf P (expon s) x)))) (data s) of
        Inl e \<Rightarrow> Inl e
      | Inr gaussian_total \<Rightarrow>
          Inr (s\<lparr>parameters_updated := (parameters_updated s)
                  \<lparr>proportion := fdiv gaussian_total (Fin (real (length (data s))))\<rparr>\<rparr>))"

definition sync_parameters :: "GaussianExponentialMixture \<Rightarrow> GaussianExponentialMixture" where
  "sync_parameters s = s\<lparr>parameters := parameters_updated s\<rparr>"

definition update_pdfs :: "GaussianExponentialMixture \<Rightarrow> GaussianExponentialMixture" where
  "update_pdfs s =
     s\<lparr>norm_rv := \<lparr>loc = mu (parameters_updated s), scale = sigma (parameters_updated s)\<rparr>,
       expon := \<lparr>loc = exp_loc s, scale = beta (parameters_updated s)\<rparr>\<rparr>"

definition check_parameter_differences :: "GaussianExponentialMixture \<Rightarrow> error + pyfloat" where
  "check_parameter_differences s = max_parameter_difference (parameters s) (parameters_updated s)"

text \<open>
  \<open>_em_step\<close>: the first update that raises ends the step, and the error is the
  result.
\<close>

definition em_step ::
  "primitives \<Rightarrow> GaussianExponentialMixture \<Rightarrow> error + GaussianExponentialMixture" where
  "em_step P s =
     (case update_beta P (sync_parameters s) of
        Inl e \<Rightarrow> Inl e
      | Inr s1 \<Rightarrow>
          (case update_mu P s1 of
             Inl e \<Rightarrow> Inl e
           | Inr s2 \<Rightarrow>
               (case update_sigma P s2 of
                  Inl e \<Rightarrow> Inl e
                | Inr s3 \<Rightarrow> update_proportion P (update_pdfs s3))))"

definition pdf :: "primitives \<Rightarrow> GaussianExponentialMixture \<Rightarrow> pyfloat \<Rightarrow> pyfloat" where
  "pdf P s val =
     fadd (fmul (fsub (Fin 1) (proportion (parameters s))) (expon_pdf P (expon s) val))
          (fmul (proportion (parameters s)) (norm_pdf P (norm_rv s) val))"

text \<open>
  The \<open>while\<close> loop of \<open>fit\<close>. The local counter \<open>iters\<close> is returned beside the
  state, so that the number of steps taken can be stated.
\<close>

function fit_loop ::
  "primitives \<Rightarrow> int \<Rightarrow> GaussianExponentialMixture \<Rightarrow> error + (int \<times> GaussianExponentialMixture)" where
  "fit_loop P iters s =
     (if iters < max_iterations s then
        (case check_parameter_differences s of
           Inl e \<Rightarrow> Inl e
         | Inr d \<Rightarrow>
             if fgt d (convergence_tolerance s) then
               (case em_step P s of
                  Inl e \<Rightarrow> Inl e
                | Inr s' \<Rightarrow> fit_loop P (iters + 1) s')
             else Inr (iters, s))
      else Inr (iters, s))"
  by pat_completeness auto
termination
  by (relation "measure (\<lambda>(P, iters, s). nat (max_iterations s - iters))")
     (auto simp: em_step_def update_beta_def update_mu_def update_sigma_def
        update_proportion_def sync_parameters_def update_pdfs_def split: sum.splits)

declare fit_loop.simps [simp del]

text \<open>
  \<open>fit\<close>: one EM step, the loop from \<open>iters = 1\<close>, and the final sync;
  \<open>fit_count\<close> also returns the final value of \<open>iters\<close>.
\<close>

definition fit_count ::
  "primitives \<Rightarrow> GaussianExponentialMixture \<Rightarrow> error + (int \<times> GaussianExponentialMixture)" where
  "fit_count P s =
     (case em_step P s of
        Inl e \<Rightarrow> Inl e
      | Inr s1 \<Rightarrow>
          (case fit_loop P 1 s1 of
             Inl e \<Rightarrow> Inl e
           | Inr (iters, s2) \<Rightarrow> Inr (iters, sync_parameters s2)))"

definition fit :: "primitives \<Rightarrow> GaussianExponentialMixture \<Rightarrow> error + GaussianExponentialMixture" where
  "fit P s = (case fit_count P s of Inl e \<Rightarrow> Inl e | Inr (iters, s') \<Rightarrow> Inr s')"

section \<open>SciPy's densities\<close>

text \<open>
  Modelled from the spec: the external density primitives (\<open>stats.norm\<close> and
  \<open>stats.expon\<close> of SciPy), which are library code outside the repository. Section 6 of
  the specification gives their contract: the exponential density is
  \<open>exp (- (x - location) / scale) / scale\<close> for \<open>x \<ge> location\<close> and \<open>0\<close> otherwise, the
  Gaussian density is the standard normal density formula, each with its logarithm, and
  NaN where undefined (a scale that is not positive, a NaN argument). The argument is
  standardised to \<open>(x - loc) / scale\<close> first, as SciPy does.
\<close>

fun flog :: "pyfloat \<Rightarrow> pyfloat" where
  "flog (Fin a) = (if 0 < a then Fin (ln a) else if a = 0 then NInf else NaN)"
| "flog PInf = PInf"
| "flog NInf = NaN"
| "flog NaN = NaN"

definition scipy_norm_pdf :: "rv_frozen \<Rightarrow> pyfloat \<Rightarrow> pyfloat" where
  "scipy_norm_pdf d x =
     (if \<not> fgt (scale d) (Fin 0) then NaN
      else case fdiv (fsub x (loc d)) (scale d) of
             NaN \<Rightarrow> NaN
           | Fin y \<Rightarrow> fdiv (Fin (exp (- (y * y) / 2) / sqrt (2 * pi))) (scale d)
           | PInf \<Rightarrow> Fin 0
           | NInf \<Rightarrow> Fin 0)"

definition scipy_norm_logpdf :: "rv_frozen \<Rightarrow> pyfloat \<Rightarrow> pyfloat" where
  "scipy_norm_logpdf d x =
     (if \<not> fgt (scale d) (Fin 0) then NaN
      else case fdiv (fsub x (loc d)) (scale d) of
             NaN \<Rightarrow> NaN
           | Fin y \<Rightarrow> fsub (Fin (- (y * y) / 2 - ln (sqrt (2 * pi)))) (flog (scale d))
           | PInf \<Rightarrow> NInf
           | NInf \<Rightarrow> NInf)"

definition scipy_expon_pdf :: "rv_frozen \<Rightarrow> pyfloat \<Rightarrow> pyfloat" where
  "scipy_expon_pdf d x =
     (if \<not> fgt (scale d) (Fin 0) then NaN
      else case fdiv (fsub x (loc d)) (scale d) of
             NaN \<Rightarrow> NaN
           | Fin y \<Rightarrow> if 0 \<le> y then fdiv (Fin (exp (- y))) (scale d) else Fin 0
           | PInf \<Rightarrow> Fin 0
           | NInf \<Rightarrow> Fin 0)"

definition scipy_expon_logpdf :: "rv_frozen \<Rightarrow> pyfloat \<Rightarrow> pyfloat" where
  "scipy_expon_logpdf d x =
     (if \<not> fgt (scale d) (Fin 0) then NaN
      else case fdiv (fsub x (loc d)) (scale d) of
             NaN \<Rightarrow> NaN
           | Fin y \<Rightarrow> if 0 \<le> y then fsub (Fin (- y)) (flog (scale d)) else NInf
           | PInf \<Rightarrow> NInf
           | NInf \<Rightarrow> NInf)"

definition scipy :: primitives where
  "scipy =
     \<lparr>norm_pdf = scipy_norm_pdf, norm_logpdf = scipy_norm_logpdf,
      expon_pdf = scipy_expon_pdf, expon_logpdf = scipy_expon_logpdf\<rparr>"

section \<open>Notions used by the properties\<close>

text \<open>
  The live densities agree with a parameter set: the Gaussian one has its \<open>mu\<close> and
  \<open>sigma\<close>, the exponential one the fixed location offset and its \<open>beta\<close>.
\<close>

definition densities_match ::
  "GaussianExponentialParameters \<Rightarrow> GaussianExponentialMixture \<Rightarrow> bool" where
  "densities_match p s =
     (norm_rv s = \<lparr>loc = mu p, scale = sigma p\<rparr> \<and> expon s = \<lparr>loc = exp_loc s, scale = beta p\<rparr>)"

text \<open>\<open>n\<close> EM steps in a row, stopping at the first one that raises.\<close>

fun em_steps ::
  "primitives \<Rightarrow> nat \<Rightarrow> GaussianExponentialMixture \<Rightarrow> error + GaussianExponentialMixture" where
  "em_steps P 0 s = Inr s"
| "em_steps P (Suc n) s = (case em_step P s of Inl e \<Rightarrow> Inl e | Inr s' \<Rightarrow> em_steps P n s')"

text \<open>The loop condition of \<open>fit\<close> on the distance: it exceeds the tolerance.\<close>

definition not_converged :: "GaussianExponentialMixture \<Rightarrow> bool" where
  "not_converged s =
     (case check_parameter_differences s of
        Inl e \<Rightarrow> False
      | Inr d \<Rightarrow> fgt d (convergence_tolerance s))"

text \<open>
  The proportion update as the specification words it, for comparison with
  \<open>update_proportion\<close>: every non-finite log-density (NaN and both infinities) counts
  as 0 in the comparison.
\<close>

fun nonfinite_to_zero :: "pyfloat \<Rightarrow> pyfloat" where
  "nonfinite_to_zero (Fin a) = Fin a"
| "nonfinite_to_zero PInf = Fin 0"
| "nonfinite_to_zero NInf = Fin 0"
| "nonfinite_to_zero NaN = Fin 0"

definition proportion_as_specified :: "primitives \<Rightarrow> GaussianExponentialMixture \<Rightarrow> pyfloat" where
  "proportion_as_specified P s =
     Fin (real (length (filter
            (\<lambda>x. fgt (nonfinite_to_zero (norm_logpdf P (norm_rv s) x))
                      (nonfinite_to_zero (expon_logpdf P (expon s) x)))
            (data s)))
          / real (length (data s)))"

section \<open>Example runs\<close>

text \<open>
  Estimators on which SciPy's densities can be evaluated by hand, because the initial
  proportion makes the responsibilities simple. \<open>start_zero\<close> starts at proportion 0
  with a data point below the exponential location and may take two steps.
  \<open>start_one\<close> and \<open>start_root\<close> start at proportion 1 with the default iteration
  bound. \<open>start_still\<close> starts at proportion 0 with an initial beta of 5 and all data at
  the exponential location 1, and reaches a fixed point. \<open>start_raise\<close> starts at a
  proportion of 2, which the constructor does not check, and gives a negative
  responsibility at 0. The states after the EM steps are written out.
\<close>

definition start_zero :: GaussianExponentialMixture where
  "start_zero =
     mixture_init [Fin (- 1), Fin 3] (Fin 0) 2 (Fin (1 / 1000)) [''proportion'' \<mapsto> Fin 0]"

definition start_zero_1 :: GaussianExponentialMixture where
  "start_zero_1 =
     \<lparr>convergence_tolerance = Fin (1 / 1000), data = [Fin (- 1), Fin 3], exp_loc = Fin 0,
      parameters = \<lparr>beta = Fin 1, mu = Fin 0, sigma = Fin 100, proportion = Fin 0\<rparr>,
      parameters_updated = \<lparr>beta = Fin 1, mu = NaN, sigma = NaN, proportion = Fin 1\<rparr>,
      max_iterations = 2,
      expon = \<lparr>loc = Fin 0, scale = Fin 1\<rparr>, norm_rv = \<lparr>loc = NaN, scale = NaN\<rparr>\<rparr>"

definition start_zero_2 :: GaussianExponentialMixture where
  "start_zero_2 =
     \<lparr>convergence_tolerance = Fin (1 / 1000), data = [Fin (- 1), Fin 3], exp_loc = Fin 0,
      parameters = \<lparr>beta = Fin 1, mu = NaN, sigma = NaN, proportion = Fin 1\<rparr>,
      parameters_updated = \<lparr>beta = NaN, mu = NaN, sigma = NaN, proportion = Fin 0\<rparr>,
      max_iterations = 2,
      expon = \<lparr>loc = Fin 0, scale = NaN\<rparr>, norm_rv = \<lparr>loc = NaN, scale = NaN\<rparr>\<rparr>"

definition start_one :: GaussianExponentialMixture where
  "start_one =
     mixture_init [Fin 1, Fin 3] (Fin 0) 100 (Fin (1 / 1000)) [''proportion'' \<mapsto> Fin 1]"

definition start_one_1 :: GaussianExponentialMixture where
  "start_one_1 =
     \<lparr>convergence_tolerance = Fin (1 / 1000), data = [Fin 1, Fin 3], exp_loc = Fin 0,
      parameters = \<lparr>beta = Fin 1, mu = Fin 0, sigma = Fin 100, proportion = Fin 1\<rparr>,
      parameters_updated = \<lparr>beta = NaN, mu = Fin 2, sigma = Fin 1, proportion = Fin 0\<rparr>,
      max_iterations = 100,
      expon = \<lparr>loc = Fin 0, scale = NaN\<rparr>, norm_rv = \<lparr>loc = Fin 2, scale = Fin 1\<rparr>\<rparr>"

definition start_root :: GaussianExponentialMixture where
  "start_root =
     mixture_init [Fin 1, Fin 5] (Fin 0) 100 (Fin (1 / 1000)) [''proportion'' \<mapsto> Fin 1]"

definition start_still :: GaussianExponentialMixture where
  "start_still =
     mixture_init [Fin 1, Fin 1] (Fin 1) 100 (Fin (1 / 1000))
       [''beta'' \<mapsto> Fin 5, ''proportion'' \<mapsto> Fin 0]"

definition start_still_1 :: GaussianExponentialMixture where
  "start_still_1 =
     \<lparr>convergence_tolerance = Fin (1 / 1000), data = [Fin 1, Fin 1], exp_loc = Fin 1,
      parameters = \<lparr>beta = Fin 5, mu = Fin 0, sigma = Fin 100, proportion = Fin 0\<rparr>,
      parameters_updated = \<lparr>beta = Fin 1, mu = NaN, sigma = NaN, proportion = Fin 0\<rparr>,
      max_iterations = 100,
      expon = \<lparr>loc = Fin 1, scale = Fin 1\<rparr>, norm_rv = \<lparr>loc = NaN, scale = NaN\<rparr>\<rparr>"

definition start_still_2 :: GaussianExponentialMixture where
  "start_still_2 =
     \<lparr>convergence_tolerance = Fin (1 / 1000), data = [Fin 1, Fin 1], exp_loc = Fin 1,
      parameters = \<lparr>beta = Fin 1, mu = NaN, sigma = NaN, proportion = Fin 0\<rparr>,
      parameters_updated = \<lparr>beta = Fin 1, mu = NaN, sigma = NaN, proportion = Fin 0\<rparr>,
      max_iterations = 100,
      expon = \<lparr>loc = Fin 1, scale = Fin 1\<rparr>, norm_rv = \<lparr>loc = NaN, scale = NaN\<rparr>\<rparr>"

definition start_raise :: GaussianExponentialMixture where
  "start_raise =
     mixture_init [Fin (- 1), Fin 0] (Fin 0) 100 (Fin (1 / 1000)) [''proportion'' \<mapsto> Fin 2]"

text \<open>
  The Gaussian density at its mean for sigma = 100, and the responsibility it gives at
  proportion 2 against an exponential density of 1.
\<close>

definition peak :: real where
  "peak = 1 / (100 * sqrt (2 * pi))"

definition r_zero :: real where
  "r_zero = 2 * peak / (2 * peak - 1)"

section \<open>Basic facts\<close>

lemma feq_NaN_right: "feq x NaN = False"
  by (cases x) simp_all

lemma fadd_NaN_right: "fadd x NaN = NaN"
  by (cases x) simp_all

lemma fmul_NaN_right: "fmul x NaN = NaN"
  by (cases x) simp_all

lemma fdiv_NaN_right: "fdiv x NaN = NaN"
  by (cases x) simp_all

lemma fabs_fsub_commute: "fabs (fsub a b) = fabs (fsub b a)"
  by (cases a; cases b) (simp_all add: fsub_def abs_minus_commute)

lemma dbl_max_pos: "0 < dbl_max"
  by (simp add: dbl_max_def)

lemma ln_sqrt_2pi_pos: "0 < ln (sqrt (2 * pi))"
proof -
  have "1 < 2 * pi" using pi_ge_two by simp
  then have "1 < sqrt (2 * pi)" by simp
  then show ?thesis by simp
qed

lemma foldl_fadd_of_bool:
  "foldl fadd (Fin a) (map (\<lambda>x. of_bool_f (c x)) xs) = Fin (a + real (length (filter c xs)))"
  by (induction xs arbitrary: a) (simp_all add: of_bool_f_def)

lemma py_sum_of_bool:
  "py_sum (map (\<lambda>x. of_bool_f (c x)) xs) = Fin (real (length (filter c xs)))"
  using foldl_fadd_of_bool[of 0 c xs] by (simp add: py_sum_def)

lemma scipy_sel:
  "norm_pdf scipy = scipy_norm_pdf" "norm_logpdf scipy = scipy_norm_logpdf"
  "expon_pdf scipy = scipy_expon_pdf" "expon_logpdf scipy = scipy_expon_logpdf"
  by (simp_all add: scipy_def)

section \<open>The responsibility and one EM step\<close>

text \<open>
  The two comparisons with \<open>np.nan\<close> never hold, so the responsibility is decided by
  the test on the proportion alone.
\<close>

lemma expectation_is_gaussian_eq:
  "expectation_is_gaussian P s x =
     (if feq (proportion (parameters s)) (Fin 0) then Fin 0
      else fdiv (fmul (norm_pdf P (norm_rv s) x) (proportion (parameters s)))
                (fadd (fmul (norm_pdf P (norm_rv s) x) (proportion (parameters s)))
                      (fmul (expon_pdf P (expon s) x) (fsub (Fin 1) (proportion (parameters s))))))"
  by (simp add: expectation_is_gaussian_def Let_def feq_NaN_right)

lemma expectation_is_gaussian_cong:
  "norm_rv t = norm_rv s \<Longrightarrow> expon t = expon s \<Longrightarrow> parameters t = parameters s \<Longrightarrow>
   expectation_is_gaussian P t = expectation_is_gaussian P s"
  by (rule ext) (simp add: expectation_is_gaussian_def)

lemma expectation_is_gaussian_parameters_updated:
  "expectation_is_gaussian P (s\<lparr>parameters_updated := q\<rparr>) = expectation_is_gaussian P s"
  by (rule expectation_is_gaussian_cong) simp_all

lemma sync_parameters_simps:
  "data (sync_parameters s) = data s"
  "norm_rv (sync_parameters s) = norm_rv s"
  "expon (sync_parameters s) = expon s"
  "exp_loc (sync_parameters s) = exp_loc s"
  "parameters (sync_parameters s) = parameters_updated s"
  "parameters_updated (sync_parameters s) = parameters_updated s"
  "max_iterations (sync_parameters s) = max_iterations s"
  "convergence_tolerance (sync_parameters s) = convergence_tolerance s"
  by (simp_all add: sync_parameters_def)

lemma update_beta_nonempty:
  "data s \<noteq> [] \<Longrightarrow>
   update_beta P s =
     Inr (s\<lparr>parameters_updated := (parameters_updated s)
       \<lparr>beta := fdiv (py_sum (map (\<lambda>x. fmul (fsub (Fin 1) (expectation_is_gaussian P s x)) x) (data s)))
                      (py_sum (map (\<lambda>x. fsub (Fin 1) (expectation_is_gaussian P s x)) (data s)))\<rparr>\<rparr>)"
  by (simp add: update_beta_def apply_and_sum_def)

lemma update_mu_nonempty:
  "data s \<noteq> [] \<Longrightarrow>
   update_mu P s =
     Inr (s\<lparr>parameters_updated := (parameters_updated s)
       \<lparr>mu := fdiv (py_sum (map (\<lambda>x. fmul (expectation_is_gaussian P s x) x) (data s)))
                    (py_sum (map (\<lambda>x. expectation_is_gaussian P s x) (data s)))\<rparr>\<rparr>)"
  by (simp add: update_mu_def apply_and_sum_def)

lemma update_sigma_nonempty:
  "data s \<noteq> [] \<Longrightarrow>
   update_sigma P s =
     (case math_sqrt
        (fdiv (py_sum (map (\<lambda>x. fmul (expectation_is_gaussian P s x)
                                     (fpow2 (fsub x (mu (parameters_updated s))))) (data s)))
              (py_sum (map (\<lambda>x. expectation_is_gaussian P s x) (data s)))) of
        Inl e \<Rightarrow> Inl e
      | Inr sd \<Rightarrow> Inr (s\<lparr>parameters_updated := (parameters_updated s)\<lparr>sigma := sd\<rparr>\<rparr>))"
  by (simp add: update_sigma_def apply_and_sum_def)

lemma update_proportion_nonempty:
  "data s \<noteq> [] \<Longrightarrow>
   update_proportion P s =
     Inr (s\<lparr>parameters_updated := (parameters_updated s)
       \<lparr>proportion :=
          fdiv (py_sum (map (\<lambda>x. of_bool_f (fgt (nan_to_num (norm_logpdf P (norm_rv s) x))
                                               (nan_to_num (expon_logpdf P (expon s) x)))) (data s)))
               (Fin (real (length (data s))))\<rparr>\<rparr>)"
  by (simp add: update_proportion_def apply_and_sum_def)

lemma em_step_empty: "data s = [] \<Longrightarrow> em_step P s = Inl ValueError"
  by (simp add: em_step_def update_beta_def apply_and_sum_def sync_parameters_def)

lemma em_step_Inr_data: "em_step P s = Inr s' \<Longrightarrow> data s \<noteq> []"
  using em_step_empty by fastforce

text \<open>One EM step on a non-empty sample, with every intermediate value written out.\<close>

lemma em_step_nonempty:
  assumes "data s \<noteq> []"
  shows "em_step P s =
    (let r = expectation_is_gaussian P (sync_parameters s);
         b = fdiv (py_sum (map (\<lambda>x. fmul (fsub (Fin 1) (r x)) x) (data s)))
                  (py_sum (map (\<lambda>x. fsub (Fin 1) (r x)) (data s)));
         m = fdiv (py_sum (map (\<lambda>x. fmul (r x) x) (data s))) (py_sum (map r (data s)))
     in case math_sqrt (fdiv (py_sum (map (\<lambda>x. fmul (r x) (fpow2 (fsub x m))) (data s)))
                             (py_sum (map r (data s)))) of
          Inl e \<Rightarrow> Inl e
        | Inr sd \<Rightarrow>
            Inr (s\<lparr>parameters := parameters_updated s,
                   parameters_updated :=
                     \<lparr>beta = b, mu = m, sigma = sd,
                      proportion =
                        fdiv (py_sum (map (\<lambda>x. of_bool_f
                                (fgt (nan_to_num (norm_logpdf P \<lparr>loc = m, scale = sd\<rparr> x))
                                     (nan_to_num (expon_logpdf P \<lparr>loc = exp_loc s, scale = b\<rparr> x))))
                                (data s)))
                             (Fin (real (length (data s))))\<rparr>,
                   norm_rv := \<lparr>loc = m, scale = sd\<rparr>,
                   expon := \<lparr>loc = exp_loc s, scale = b\<rparr>\<rparr>))"
  using assms
  by (simp add: em_step_def update_beta_nonempty update_mu_nonempty update_sigma_nonempty
      update_proportion_nonempty sync_parameters_simps expectation_is_gaussian_parameters_updated
      update_pdfs_def Let_def sync_parameters_def[of s, symmetric] split: sum.splits)

lemma em_step_max_iterations: "em_step P s = Inr s' \<Longrightarrow> max_iterations s' = max_iterations s"
  by (frule em_step_Inr_data) (auto simp: em_step_nonempty Let_def split: sum.splits)

lemma em_step_densities_match:
  "em_step P s = Inr s' \<Longrightarrow> densities_match (parameters_updated s') s'"
  by (frule em_step_Inr_data)
     (auto simp: em_step_nonempty Let_def densities_match_def split: sum.splits)


section \<open>The example runs evaluated\<close>

lemma start_zero_eq:
  "start_zero =
     \<lparr>convergence_tolerance = Fin (1 / 1000), data = [Fin (- 1), Fin 3], exp_loc = Fin 0,
      parameters = \<lparr>beta = Fin 1, mu = Fin 0, sigma = Fin 100, proportion = Fin 0\<rparr>,
      parameters_updated = \<lparr>beta = Fin 1, mu = Fin 0, sigma = Fin 100, proportion = Fin 0\<rparr>,
      max_iterations = 2,
      expon = \<lparr>loc = Fin 0, scale = Fin 1\<rparr>, norm_rv = \<lparr>loc = Fin 0, scale = Fin 100\<rparr>\<rparr>"
  by (simp add: start_zero_def mixture_init_def parameters_init_def kwarg_def)

lemma start_one_eq:
  "start_one =
     \<lparr>convergence_tolerance = Fin (1 / 1000), data = [Fin 1, Fin 3], exp_loc = Fin 0,
      parameters = \<lparr>beta = Fin 1, mu = Fin 0, sigma = Fin 100, proportion = Fin 1\<rparr>,
      parameters_updated = \<lparr>beta = Fin 1, mu = Fin 0, sigma = Fin 100, proportion = Fin 1\<rparr>,
      max_iterations = 100,
      expon = \<lparr>loc = Fin 0, scale = Fin 1\<rparr>, norm_rv = \<lparr>loc = Fin 0, scale = Fin 100\<rparr>\<rparr>"
  by (simp add: start_one_def mixture_init_def parameters_init_def kwarg_def)

lemma responsibility_start_zero:
  "expectation_is_gaussian scipy (sync_parameters start_zero) x = Fin 0"
  by (simp add: expectation_is_gaussian_eq sync_parameters_def start_zero_eq)

lemma responsibility_start_zero_1:
  "expectation_is_gaussian scipy (sync_parameters start_zero_1) x = NaN"
  by (simp add: expectation_is_gaussian_eq sync_parameters_def start_zero_1_def scipy_sel
      scipy_norm_pdf_def)

lemma responsibility_start_one:
  "expectation_is_gaussian scipy (sync_parameters start_one) (Fin x) = Fin 1"
  by (simp add: expectation_is_gaussian_eq sync_parameters_def start_one_eq scipy_sel
      scipy_norm_pdf_def scipy_expon_pdf_def fsub_def)

lemma em_step_start_zero: "em_step scipy start_zero = Inr start_zero_1"
proof -
  have ne: "data start_zero \<noteq> []" by (simp add: start_zero_eq)
  show ?thesis
    unfolding em_step_nonempty[OF ne] responsibility_start_zero
    by (simp add: start_zero_eq start_zero_1_def py_sum_def fsub_def fpow2_def scipy_sel
        scipy_norm_logpdf_def scipy_expon_logpdf_def of_bool_f_def dbl_max_pos Let_def)
qed

lemma em_step_start_zero_1: "em_step scipy start_zero_1 = Inr start_zero_2"
proof -
  have ne: "data start_zero_1 \<noteq> []" by (simp add: start_zero_1_def)
  show ?thesis
    unfolding em_step_nonempty[OF ne] responsibility_start_zero_1
    by (simp add: start_zero_1_def start_zero_2_def py_sum_def fsub_def fpow2_def scipy_sel
        scipy_norm_logpdf_def scipy_expon_logpdf_def of_bool_f_def dbl_max_pos Let_def)
qed

lemma em_step_start_one: "em_step scipy start_one = Inr start_one_1"
proof -
  have ne: "data start_one \<noteq> []" by (simp add: start_one_eq)
  have d: "data start_one = [Fin 1, Fin 3]" by (simp add: start_one_eq)
  have l: "\<not> ln (sqrt (2 * pi)) < - (1 / 2)" using ln_sqrt_2pi_pos by linarith
  show ?thesis
    unfolding em_step_nonempty[OF ne] d Let_def list.map responsibility_start_one
    using l
    by (simp add: start_one_eq start_one_1_def py_sum_def fsub_def fpow2_def scipy_sel
        scipy_norm_logpdf_def scipy_expon_logpdf_def of_bool_f_def dbl_max_pos Let_def)
qed

lemma not_converged_start_zero_1: "not_converged start_zero_1"
  by (simp add: not_converged_def check_parameter_differences_def max_parameter_difference_def
      as_list_def start_zero_1_def fsub_def)

lemma converged_start_one_1: "\<not> not_converged start_one_1"
  by (simp add: not_converged_def check_parameter_differences_def max_parameter_difference_def
      as_list_def start_one_1_def fsub_def)

lemma start_root_eq:
  "start_root =
     \<lparr>convergence_tolerance = Fin (1 / 1000), data = [Fin 1, Fin 5], exp_loc = Fin 0,
      parameters = \<lparr>beta = Fin 1, mu = Fin 0, sigma = Fin 100, proportion = Fin 1\<rparr>,
      parameters_updated = \<lparr>beta = Fin 1, mu = Fin 0, sigma = Fin 100, proportion = Fin 1\<rparr>,
      max_iterations = 100,
      expon = \<lparr>loc = Fin 0, scale = Fin 1\<rparr>, norm_rv = \<lparr>loc = Fin 0, scale = Fin 100\<rparr>\<rparr>"
  by (simp add: start_root_def mixture_init_def parameters_init_def kwarg_def)

lemma start_still_eq:
  "start_still =
     \<lparr>convergence_tolerance = Fin (1 / 1000), data = [Fin 1, Fin 1], exp_loc = Fin 1,
      parameters = \<lparr>beta = Fin 5, mu = Fin 0, sigma = Fin 100, proportion = Fin 0\<rparr>,
      parameters_updated = \<lparr>beta = Fin 5, mu = Fin 0, sigma = Fin 100, proportion = Fin 0\<rparr>,
      max_iterations = 100,
      expon = \<lparr>loc = Fin 1, scale = Fin 5\<rparr>, norm_rv = \<lparr>loc = Fin 0, scale = Fin 100\<rparr>\<rparr>"
  by (simp add: start_still_def mixture_init_def parameters_init_def kwarg_def)

lemma responsibility_start_root:
  "expectation_is_gaussian scipy (sync_parameters start_root) (Fin x) = Fin 1"
  by (simp add: expectation_is_gaussian_eq sync_parameters_def start_root_eq scipy_sel
      scipy_norm_pdf_def scipy_expon_pdf_def fsub_def)

lemma responsibility_start_still:
  "expectation_is_gaussian scipy (sync_parameters start_still) x = Fin 0"
  by (simp add: expectation_is_gaussian_eq sync_parameters_def start_still_eq)

lemma responsibility_start_still_1:
  "expectation_is_gaussian scipy (sync_parameters start_still_1) x = Fin 0"
  by (simp add: expectation_is_gaussian_eq sync_parameters_def start_still_1_def)

lemma em_step_start_still: "em_step scipy start_still = Inr start_still_1"
proof -
  have ne: "data start_still \<noteq> []" by (simp add: start_still_eq)
  show ?thesis
    unfolding em_step_nonempty[OF ne] responsibility_start_still
    by (simp add: start_still_eq start_still_1_def py_sum_def fsub_def fpow2_def scipy_sel
        scipy_norm_logpdf_def scipy_expon_logpdf_def of_bool_f_def dbl_max_pos Let_def)
qed

lemma em_step_start_still_1: "em_step scipy start_still_1 = Inr start_still_2"
proof -
  have ne: "data start_still_1 \<noteq> []" by (simp add: start_still_1_def)
  show ?thesis
    unfolding em_step_nonempty[OF ne] responsibility_start_still_1
    by (simp add: start_still_1_def start_still_2_def py_sum_def fsub_def fpow2_def scipy_sel
        scipy_norm_logpdf_def scipy_expon_logpdf_def of_bool_f_def dbl_max_pos Let_def)
qed

lemma distance_start_still_1:
  "max_parameter_difference (parameters start_still_1) (parameters_updated start_still_1)
     = Inr (Fin 4)"
  by (simp add: max_parameter_difference_def as_list_def start_still_1_def fsub_def)

lemma distance_start_still_2:
  "max_parameter_difference (parameters start_still_2) (parameters_updated start_still_2)
     = Inr (Fin 0)"
  by (simp add: max_parameter_difference_def as_list_def start_still_2_def fsub_def)

lemma start_raise_eq:
  "start_raise =
     \<lparr>convergence_tolerance = Fin (1 / 1000), data = [Fin (- 1), Fin 0], exp_loc = Fin 0,
      parameters = \<lparr>beta = Fin 1, mu = Fin 0, sigma = Fin 100, proportion = Fin 2\<rparr>,
      parameters_updated = \<lparr>beta = Fin 1, mu = Fin 0, sigma = Fin 100, proportion = Fin 2\<rparr>,
      max_iterations = 100,
      expon = \<lparr>loc = Fin 0, scale = Fin 1\<rparr>, norm_rv = \<lparr>loc = Fin 0, scale = Fin 100\<rparr>\<rparr>"
  by (simp add: start_raise_def mixture_init_def parameters_init_def kwarg_def)

lemma peak_bounds: "0 < peak" "peak < 1 / 100"
proof -
  have "1 < 2 * pi" using pi_ge_two by simp
  then have s: "1 < sqrt (2 * pi)" by simp
  then show "0 < peak" by (simp add: peak_def)
  from s have "100 < 100 * sqrt (2 * pi)" by simp
  then show "peak < 1 / 100" unfolding peak_def using s
    by (simp add: field_simps)
qed

lemma r_zero_bounds: "r_zero < 0" "0 < 1 + r_zero"
proof -
  have d: "2 * peak - 1 < 0" using peak_bounds by simp
  show "r_zero < 0" unfolding r_zero_def using peak_bounds d
    by (simp add: divide_neg_pos divide_pos_neg)
  have "1 + r_zero = (4 * peak - 1) / (2 * peak - 1)"
    unfolding r_zero_def using d by (simp add: field_simps)
  moreover have "4 * peak - 1 < 0" using peak_bounds by simp
  ultimately show "0 < 1 + r_zero" using d by (simp add: divide_neg_neg)
qed

lemma responsibility_start_raise_below:
  "expectation_is_gaussian scipy (sync_parameters start_raise) (Fin (- 1)) = Fin 1"
  by (simp add: expectation_is_gaussian_eq sync_parameters_def start_raise_eq scipy_sel
      scipy_norm_pdf_def scipy_expon_pdf_def fsub_def)

lemma responsibility_start_raise_zero:
  "expectation_is_gaussian scipy (sync_parameters start_raise) (Fin 0) = Fin r_zero"
proof -
  have d: "2 * peak - 1 \<noteq> 0" using peak_bounds by simp
  have n: "scipy_norm_pdf \<lparr>loc = Fin 0, scale = Fin 100\<rparr> (Fin 0) = Fin peak"
    by (simp add: scipy_norm_pdf_def fsub_def peak_def)
  have e: "scipy_expon_pdf \<lparr>loc = Fin 0, scale = Fin 1\<rparr> (Fin 0) = Fin 1"
    by (simp add: scipy_expon_pdf_def fsub_def)
  have "peak * 2 + - 1 \<noteq> 0" using d by simp
  then show ?thesis
    by (simp add: expectation_is_gaussian_eq sync_parameters_def start_raise_eq scipy_sel
        n e fsub_def r_zero_def mult.commute)
qed

lemma mean_start_raise:
  "fdiv (py_sum [fmul (Fin 1) (Fin (- 1)), fmul (Fin r_zero) (Fin 0)]) (py_sum [Fin 1, Fin r_zero])
     = Fin (- 1 / (1 + r_zero))"
  using r_zero_bounds by (simp add: py_sum_def)

lemma variance_start_raise:
  "fdiv (py_sum [fmul (Fin 1) (fmul (fsub (Fin (- 1)) (Fin (- 1 / (1 + r_zero))))
                                    (fsub (Fin (- 1)) (Fin (- 1 / (1 + r_zero))))),
                 fmul (Fin r_zero) (fmul (fsub (Fin 0) (Fin (- 1 / (1 + r_zero))))
                                         (fsub (Fin 0) (Fin (- 1 / (1 + r_zero)))))])
        (py_sum [Fin 1, Fin r_zero])
     = Fin (r_zero / ((1 + r_zero) * (1 + r_zero)))"
proof -
  have nz: "1 + r_zero \<noteq> 0" using r_zero_bounds by simp
  have "(1 * ((- 1 + 1 / (1 + r_zero)) * (- 1 + 1 / (1 + r_zero)))
          + r_zero * ((1 / (1 + r_zero)) * (1 / (1 + r_zero)))) / (1 + r_zero)
        = r_zero / ((1 + r_zero) * (1 + r_zero))"
    using nz by (simp add: field_simps) algebra
  then show ?thesis using nz by (simp add: py_sum_def fsub_def fpow2_def)
qed

section \<open>The fit loop\<close>

lemma check_parameter_differences_Inr: "\<exists>d. check_parameter_differences s = Inr d"
  by (simp add: check_parameter_differences_def max_parameter_difference_def as_list_def)

lemma fit_loop_unfold:
  "fit_loop P i s =
     (if i < max_iterations s \<and> not_converged s
      then (case em_step P s of Inl e \<Rightarrow> Inl e | Inr s' \<Rightarrow> fit_loop P (i + 1) s')
      else Inr (i, s))"
proof -
  obtain d where d: "check_parameter_differences s = Inr d"
    using check_parameter_differences_Inr by blast
  show ?thesis
    by (subst fit_loop.simps) (simp add: d not_converged_def)
qed

lemma fit_loop_Inr:
  "fit_loop P i s = Inr (n, t) \<Longrightarrow>
     i \<le> n \<and> em_steps P (nat (n - i)) s = Inr t \<and>
     (n = i \<or> n \<le> max_iterations s) \<and>
     \<not> (n < max_iterations s \<and> not_converged t) \<and>
     (\<forall>k < nat (n - i). \<exists>u. em_steps P k s = Inr u \<and> not_converged u)"
proof (induction P i s rule: fit_loop.induct)
  case (1 P i s)
  show ?case
  proof (cases "i < max_iterations s \<and> not_converged s")
    case False
    with "1.prems" have "n = i" "t = s" by (simp_all add: fit_loop_unfold)
    with False show ?thesis by auto
  next
    case True
    then obtain d where d: "check_parameter_differences s = Inr d" "fgt d (convergence_tolerance s)"
      by (auto simp: not_converged_def split: sum.splits)
    from True "1.prems" obtain s' where s': "em_step P s = Inr s'" "fit_loop P (i + 1) s' = Inr (n, t)"
      by (auto simp: fit_loop_unfold split: sum.splits)
    have mi: "max_iterations s' = max_iterations s" using s'(1) by (rule em_step_max_iterations)
    from "1.IH"[OF _ d(1) d(2) s'(1) s'(2)] True
    have ih: "i + 1 \<le> n" "em_steps P (nat (n - (i + 1))) s' = Inr t"
      "n = i + 1 \<or> n \<le> max_iterations s'"
      "\<not> (n < max_iterations s' \<and> not_converged t)"
      "\<forall>k < nat (n - (i + 1)). \<exists>u. em_steps P k s' = Inr u \<and> not_converged u"
      by auto
    have nat_eq: "nat (n - i) = Suc (nat (n - (i + 1)))" using ih(1) by simp
    have a: "em_steps P (nat (n - i)) s = Inr t" using ih(2) s'(1) by (simp add: nat_eq)
    have b: "n = i \<or> n \<le> max_iterations s" using ih(3) True mi by auto
    have c: "\<not> (n < max_iterations s \<and> not_converged t)" using ih(4) mi by simp
    have e: "\<forall>k < nat (n - i). \<exists>u. em_steps P k s = Inr u \<and> not_converged u"
    proof (intro allI impI)
      fix k assume k: "k < nat (n - i)"
      show "\<exists>u. em_steps P k s = Inr u \<and> not_converged u"
      proof (cases k)
        case 0
        then show ?thesis using True by simp
      next
        case (Suc j)
        with k nat_eq have "j < nat (n - (i + 1))" by simp
        with ih(5) obtain u where "em_steps P j s' = Inr u" "not_converged u" by blast
        then show ?thesis using Suc s'(1) by simp
      qed
    qed
    from ih(1) a b c e show ?thesis by simp
  qed
qed

lemma fit_loop_Inl:
  "fit_loop P i s = Inl e \<Longrightarrow>
     \<exists>k u. i + int k < max_iterations s \<and> em_steps P k s = Inr u \<and> em_step P u = Inl e"
proof (induction P i s rule: fit_loop.induct)
  case (1 P i s)
  from "1.prems" have True: "i < max_iterations s \<and> not_converged s"
    by (auto simp: fit_loop_unfold split: if_splits)
  then obtain d where d: "check_parameter_differences s = Inr d" "fgt d (convergence_tolerance s)"
    by (auto simp: not_converged_def split: sum.splits)
  show ?case
  proof (cases "em_step P s")
    case (Inl e')
    with "1.prems" True have "e' = e" by (simp add: fit_loop_unfold)
    with Inl True have "i + int 0 < max_iterations s \<and> em_steps P 0 s = Inr s \<and> em_step P s = Inl e"
      by simp
    then show ?thesis by blast
  next
    case (Inr s')
    with "1.prems" True have l: "fit_loop P (i + 1) s' = Inl e" by (simp add: fit_loop_unfold)
    have mi: "max_iterations s' = max_iterations s" using Inr by (rule em_step_max_iterations)
    from "1.IH"[OF _ d(1) d(2) Inr l] True obtain k u where
      "i + 1 + int k < max_iterations s'" "em_steps P k s' = Inr u" "em_step P u = Inl e"
      by auto
    then have "i + int (Suc k) < max_iterations s \<and> em_steps P (Suc k) s = Inr u \<and> em_step P u = Inl e"
      using Inr mi by simp
    then show ?thesis by blast
  qed
qed

lemma em_steps_densities_match:
  "em_steps P (Suc k) s = Inr t \<Longrightarrow> densities_match (parameters_updated t) t"
proof (induction k arbitrary: s)
  case 0
  then show ?case by (auto split: sum.splits dest: em_step_densities_match)
next
  case (Suc k)
  from Suc.prems obtain s' where "em_step P s = Inr s'" "em_steps P (Suc k) s' = Inr t"
    by (auto split: sum.splits)
  then show ?case using Suc.IH by blast
qed

lemma fit_count_Inr:
  assumes "1 \<le> max_iterations s" and "fit_count P s = Inr (m, s')"
  shows "\<exists>n t. m = int n \<and> 1 \<le> n \<and> int n \<le> max_iterations s \<and>
           em_steps P n s = Inr t \<and> s' = sync_parameters t \<and>
           \<not> (int n < max_iterations s \<and> not_converged t) \<and>
           (\<forall>k. 1 \<le> k \<and> k < n \<longrightarrow> (\<exists>u. em_steps P k s = Inr u \<and> not_converged u))"
proof -
  from assms(2) obtain s1 t where s1: "em_step P s = Inr s1"
    and fl: "fit_loop P 1 s1 = Inr (m, t)" and s': "s' = sync_parameters t"
    by (auto simp: fit_count_def split: sum.splits)
  have mi: "max_iterations s1 = max_iterations s" using s1 by (rule em_step_max_iterations)
  from fit_loop_Inr[OF fl]
  have f: "1 \<le> m" "em_steps P (nat (m - 1)) s1 = Inr t" "m = 1 \<or> m \<le> max_iterations s1"
    "\<not> (m < max_iterations s1 \<and> not_converged t)"
    "\<forall>k < nat (m - 1). \<exists>u. em_steps P k s1 = Inr u \<and> not_converged u"
    by auto
  define n where "n = nat m"
  have n: "m = int n" "1 \<le> n" "n = Suc (nat (m - 1))" using f(1) by (simp_all add: n_def)
  have le: "int n \<le> max_iterations s" using f(3) assms(1) mi n(1) by auto
  have steps: "em_steps P n s = Inr t" using f(2) s1 n(3) by simp
  have stop: "\<not> (int n < max_iterations s \<and> not_converged t)" using f(4) mi n(1) by simp
  have before: "\<forall>k. 1 \<le> k \<and> k < n \<longrightarrow> (\<exists>u. em_steps P k s = Inr u \<and> not_converged u)"
  proof (intro allI impI)
    fix k assume k: "1 \<le> k \<and> k < n"
    then obtain j where j: "k = Suc j" by (cases k) auto
    with k n(3) have "j < nat (m - 1)" by simp
    with f(5) obtain u where "em_steps P j s1 = Inr u" "not_converged u" by blast
    then show "\<exists>u. em_steps P k s = Inr u \<and> not_converged u" using j s1 by simp
  qed
  from n(1,2) le steps s' stop before show ?thesis by blast
qed

lemma fit_count_Inl:
  assumes "fit_count P s = Inl e"
  shows "\<exists>k u. (k = 0 \<or> int k < max_iterations s) \<and> em_steps P k s = Inr u \<and> em_step P u = Inl e"
proof (cases "em_step P s")
  case (Inl e')
  with assms have "e' = e" by (simp add: fit_count_def)
  with Inl have "(0 = (0::nat) \<or> int 0 < max_iterations s) \<and> em_steps P 0 s = Inr s \<and> em_step P s = Inl e"
    by simp
  then show ?thesis by blast
next
  case (Inr s1)
  with assms have "fit_loop P 1 s1 = Inl e"
    by (auto simp: fit_count_def split: sum.splits)
  from fit_loop_Inl[OF this] obtain k u where
    k: "1 + int k < max_iterations s1" "em_steps P k s1 = Inr u" "em_step P u = Inl e" by blast
  have mi: "max_iterations s1 = max_iterations s" using Inr by (rule em_step_max_iterations)
  have "(Suc k = 0 \<or> int (Suc k) < max_iterations s) \<and> em_steps P (Suc k) s = Inr u \<and> em_step P u = Inl e"
    using k mi Inr by simp
  then show ?thesis by blast
qed

lemma fit_densities_match:
  assumes "fit P s = Inr s'"
  shows "densities_match (parameters s') s'"
proof -
  from assms obtain s1 m t where s1: "em_step P s = Inr s1"
    and fl: "fit_loop P 1 s1 = Inr (m, t)" and s': "s' = sync_parameters t"
    by (auto simp: fit_def fit_count_def split: sum.splits)
  from fit_loop_Inr[OF fl] have "em_steps P (nat (m - 1)) s1 = Inr t" by simp
  with s1 have "em_steps P (Suc (nat (m - 1))) s = Inr t" by simp
  then have "densities_match (parameters_updated t) t" by (rule em_steps_densities_match)
  then show ?thesis by (simp add: s' sync_parameters_def densities_match_def)
qed

lemma fit_count_start_zero: "fit_count scipy start_zero = Inr (2, sync_parameters start_zero_2)"
proof -
  have a: "fit_loop scipy 2 start_zero_2 = Inr (2, start_zero_2)"
    by (subst fit_loop_unfold) (simp add: start_zero_2_def)
  have b: "fit_loop scipy 1 start_zero_1 = Inr (2, start_zero_2)"
    by (subst fit_loop_unfold)
       (simp add: not_converged_start_zero_1 em_step_start_zero_1 a, simp add: start_zero_1_def)
  show ?thesis by (simp add: fit_count_def em_step_start_zero b)
qed

lemma fit_count_start_one: "fit_count scipy start_one = Inr (1, sync_parameters start_one_1)"
proof -
  have b: "fit_loop scipy 1 start_one_1 = Inr (1, start_one_1)"
    by (subst fit_loop_unfold) (simp add: converged_start_one_1)
  show ?thesis by (simp add: fit_count_def em_step_start_one b)
qed
lemma not_converged_iff:
  "not_converged u \<longleftrightarrow>
     (\<exists>d. max_parameter_difference (parameters u) (parameters_updated u) = Inr d \<and>
          fgt d (convergence_tolerance u))"
  by (auto simp: not_converged_def check_parameter_differences_def split: sum.splits)

lemma fit_count_start_still: "fit_count scipy start_still = Inr (2, sync_parameters start_still_2)"
proof -
  have n1: "not_converged start_still_1"
    by (simp add: not_converged_iff distance_start_still_1, simp add: start_still_1_def)
  have n2: "\<not> not_converged start_still_2"
    by (simp add: not_converged_iff distance_start_still_2, simp add: start_still_2_def)
  have a: "fit_loop scipy 2 start_still_2 = Inr (2, start_still_2)"
    by (subst fit_loop_unfold) (simp add: n2)
  have b: "fit_loop scipy 1 start_still_1 = Inr (2, start_still_2)"
    by (subst fit_loop_unfold)
       (simp add: n1 em_step_start_still_1 a, simp add: start_still_1_def)
  show ?thesis by (simp add: fit_count_def em_step_start_still b)
qed

section \<open>The parameter distance\<close>

lemma max_parameter_difference_commute:
  "max_parameter_difference p q = max_parameter_difference q p"
  by (simp add: max_parameter_difference_def as_list_def fabs_fsub_commute[of "beta p"]
      fabs_fsub_commute[of "mu p"] fabs_fsub_commute[of "sigma p"]
      fabs_fsub_commute[of "proportion p"])

lemma max_parameter_difference_finite:
  "max_parameter_difference
     \<lparr>beta = Fin b, mu = Fin m, sigma = Fin sg, proportion = Fin pr\<rparr>
     \<lparr>beta = Fin b', mu = Fin m', sigma = Fin sg', proportion = Fin pr'\<rparr>
   = Inr (Fin (Max {\<bar>b - b'\<bar>, \<bar>m - m'\<bar>, \<bar>sg - sg'\<bar>, \<bar>pr - pr'\<bar>}))"
  by (simp add: max_parameter_difference_def as_list_def fsub_def max_def)

section \<open>The claims\<close>

text \<open>
  C1. The responsibility of an observation \<open>x\<close> is exactly 0 when the current
  proportion equals 0, and \<open>pG / (pG + pE)\<close> otherwise, with
  \<open>pG = GaussianPdf(x) * proportion\<close> and \<open>pE = ExponentialPdf(x) * (1 - proportion)\<close>
  taken from the live densities and the current proportion. Whenever the live densities
  were built from the current parameter set, they are \<open>GaussianPdf(x; mu, sigma)\<close> and
  \<open>ExponentialPdf(x; location, beta)\<close> of the current mu, sigma and beta; this is the
  case where the M-step evaluates the responsibility: after the sync that opens an EM
  step, in a state whose live densities agree with the candidate.
\<close>

theorem expectation_is_gaussian_posterior:
  "expectation_is_gaussian P s x =
     (if feq (proportion (parameters s)) (Fin 0) then Fin 0
      else fdiv (fmul (norm_pdf P (norm_rv s) x) (proportion (parameters s)))
             (fadd (fmul (norm_pdf P (norm_rv s) x) (proportion (parameters s)))
                   (fmul (expon_pdf P (expon s) x) (fsub (Fin 1) (proportion (parameters s))))))
   \<and> (densities_match (parameters s) s \<longrightarrow>
        expectation_is_gaussian P s x =
          (if feq (proportion (parameters s)) (Fin 0) then Fin 0
           else fdiv
             (fmul (norm_pdf P \<lparr>loc = mu (parameters s), scale = sigma (parameters s)\<rparr> x)
                   (proportion (parameters s)))
             (fadd
                (fmul (norm_pdf P \<lparr>loc = mu (parameters s), scale = sigma (parameters s)\<rparr> x)
                      (proportion (parameters s)))
                (fmul (expon_pdf P \<lparr>loc = exp_loc s, scale = beta (parameters s)\<rparr> x)
                      (fsub (Fin 1) (proportion (parameters s)))))))
   \<and> (densities_match (parameters_updated s) s \<longrightarrow>
        densities_match (parameters (sync_parameters s)) (sync_parameters s))"
  by (simp add: expectation_is_gaussian_eq densities_match_def sync_parameters_def)

theorem expectation_is_gaussian_posterior_witness:
  "densities_match (parameters start_one) start_one
   \<and> expectation_is_gaussian scipy start_one (Fin 3) = Fin 1
   \<and> densities_match (parameters start_zero) start_zero
   \<and> expectation_is_gaussian scipy start_zero (Fin 3) = Fin 0
   \<and> densities_match (parameters_updated start_one_1) start_one_1
   \<and> densities_match (parameters (sync_parameters start_one_1)) (sync_parameters start_one_1)"
proof -
  have h1: "densities_match (parameters start_one) start_one"
    by (simp add: start_one_eq densities_match_def)
  have h0: "densities_match (parameters start_zero) start_zero"
    by (simp add: start_zero_eq densities_match_def)
  have h2: "densities_match (parameters_updated start_one_1) start_one_1"
    by (simp add: start_one_1_def densities_match_def)
  have r1: "expectation_is_gaussian scipy start_one (Fin 3) = Fin 1"
    using expectation_is_gaussian_posterior[of scipy start_one "Fin 3"] h1
    by (simp add: start_one_eq scipy_sel scipy_norm_pdf_def scipy_expon_pdf_def fsub_def)
  have r0: "expectation_is_gaussian scipy start_zero (Fin 3) = Fin 0"
    using expectation_is_gaussian_posterior[of scipy start_zero "Fin 3"] h0
    by (simp add: start_zero_eq)
  have s2: "densities_match (parameters (sync_parameters start_one_1)) (sync_parameters start_one_1)"
    using expectation_is_gaussian_posterior[of scipy start_one_1 "Fin 3"] h2 by blast
  from h1 r1 h0 r0 h2 s2 show ?thesis by simp
qed

text \<open>
  C2. In an EM step on a non-empty sample the candidate beta is set to
  \<open>Sum[(1 - r(x)) * x] / Sum[(1 - r(x))]\<close> over the data, on the raw values \<open>x\<close> with
  no location offset subtracted. The responsibility \<open>r\<close> is the one of the state at step
  entry once its candidate is committed: it uses the proportion of the candidate at entry
  and the live densities at entry. The beta update itself always succeeds on a non-empty
  sample, and a step that completes keeps the value.
\<close>

theorem beta_update_weighted_mean:
  assumes "data s \<noteq> []"
  shows "let r = expectation_is_gaussian P (sync_parameters s);
             b = fdiv (py_sum (map (\<lambda>x. fmul (fsub (Fin 1) (r x)) x) (data s)))
                      (py_sum (map (\<lambda>x. fsub (Fin 1) (r x)) (data s)))
         in update_beta P (sync_parameters s) =
              Inr ((sync_parameters s)\<lparr>parameters_updated := (parameters_updated s)\<lparr>beta := b\<rparr>\<rparr>)
            \<and> (\<forall>s'. em_step P s = Inr s' \<longrightarrow> beta (parameters_updated s') = b)
            \<and> r x =
                (if feq (proportion (parameters_updated s)) (Fin 0) then Fin 0
                 else fdiv (fmul (norm_pdf P (norm_rv s) x) (proportion (parameters_updated s)))
                        (fadd (fmul (norm_pdf P (norm_rv s) x) (proportion (parameters_updated s)))
                              (fmul (expon_pdf P (expon s) x)
                                    (fsub (Fin 1) (proportion (parameters_updated s))))))"
proof -
  have a: "\<And>s'. em_step P s = Inr s' \<Longrightarrow>
      beta (parameters_updated s') =
        fdiv (py_sum (map (\<lambda>x. fmul (fsub (Fin 1) (expectation_is_gaussian P (sync_parameters s) x)) x) (data s)))
             (py_sum (map (\<lambda>x. fsub (Fin 1) (expectation_is_gaussian P (sync_parameters s) x)) (data s)))"
    using assms by (auto simp: em_step_nonempty Let_def split: sum.splits)
  show ?thesis
    using assms a
    by (simp add: Let_def update_beta_nonempty sync_parameters_simps
        expectation_is_gaussian_eq[of P "sync_parameters s" x])
qed

theorem beta_update_weighted_mean_witness:
  "data start_zero \<noteq> []
   \<and> update_beta scipy (sync_parameters start_zero) =
       Inr ((sync_parameters start_zero)
              \<lparr>parameters_updated := (parameters_updated start_zero)\<lparr>beta := Fin 1\<rparr>\<rparr>)
   \<and> em_step scipy start_zero = Inr start_zero_1
   \<and> beta (parameters_updated start_zero_1) = Fin 1"
proof -
  have ne: "data start_zero \<noteq> []" by (simp add: start_zero_eq)
  have d: "data start_zero = [Fin (- 1), Fin 3]" by (simp add: start_zero_eq)
  have b: "fdiv (py_sum (map (\<lambda>x. fmul (fsub (Fin 1) (Fin 0)) x) [Fin (- 1), Fin 3]))
                (py_sum (map (\<lambda>x. fsub (Fin 1) (Fin 0)) [Fin (- 1), Fin 3])) = Fin 1"
    by (simp add: py_sum_def fsub_def)
  note t = beta_update_weighted_mean[OF ne, of scipy "Fin 3", unfolded Let_def
      responsibility_start_zero d b]
  from t have u: "update_beta scipy (sync_parameters start_zero) =
       Inr ((sync_parameters start_zero)
              \<lparr>parameters_updated := (parameters_updated start_zero)\<lparr>beta := Fin 1\<rparr>\<rparr>)"
    by blast
  from t em_step_start_zero have v: "beta (parameters_updated start_zero_1) = Fin 1" by blast
  from ne u em_step_start_zero v show ?thesis by simp
qed

text \<open>
  C3. In an EM step on a non-empty sample the candidate mu is set to
  \<open>Sum[r(x) * x] / Sum[r(x)]\<close>, and the candidate sigma to the square root of
  \<open>Sum[r(x) * (x - mu')^2] / Sum[r(x)]\<close> with the mu' just computed, not the previous
  mu; \<open>r\<close> is in both the responsibility of the state at step entry once its candidate
  is committed. When the quotient is a finite number \<open>a \<ge> 0\<close> the step completes with
  sigma' equal to the real square root of \<open>a\<close>; a NaN or \<open>+inf\<close> quotient passes
  through \<open>math.sqrt\<close> unchanged; on a negative or \<open>-inf\<close> quotient \<open>math.sqrt\<close>
  raises \<open>ValueError\<close> and the step raises with it.
\<close>

theorem mu_sigma_update:
  assumes "data s \<noteq> []"
  shows "let r = expectation_is_gaussian P (sync_parameters s);
             m = fdiv (py_sum (map (\<lambda>x. fmul (r x) x) (data s))) (py_sum (map r (data s)));
             sigma_squared =
               fdiv (py_sum (map (\<lambda>x. fmul (r x) (fmul (fsub x m) (fsub x m))) (data s)))
                    (py_sum (map r (data s)))
         in case sigma_squared of
              Fin a \<Rightarrow>
                if a < 0 then em_step P s = Inl ValueError
                else (\<exists>s'. em_step P s = Inr s' \<and> mu (parameters_updated s') = m \<and>
                           sigma (parameters_updated s') = Fin (sqrt a))
            | PInf \<Rightarrow>
                (\<exists>s'. em_step P s = Inr s' \<and> mu (parameters_updated s') = m \<and>
                      sigma (parameters_updated s') = PInf)
            | NInf \<Rightarrow> em_step P s = Inl ValueError
            | NaN \<Rightarrow>
                (\<exists>s'. em_step P s = Inr s' \<and> mu (parameters_updated s') = m \<and>
                      sigma (parameters_updated s') = NaN)"
  using assms
  by (auto simp: Let_def em_step_nonempty fpow2_def split: sum.splits pyfloat.splits)

theorem mu_sigma_update_witness:
  "data start_root \<noteq> []
   \<and> (\<exists>s'. em_step scipy start_root = Inr s' \<and> mu (parameters_updated s') = Fin 3 \<and>
            sigma (parameters_updated s') = Fin 2)
   \<and> data start_raise \<noteq> []
   \<and> em_step scipy start_raise = Inl ValueError"
proof -
  have ne: "data start_root \<noteq> []" by (simp add: start_root_eq)
  have d: "data start_root = [Fin 1, Fin 5]" by (simp add: start_root_eq)
  note t = mu_sigma_update[OF ne, of scipy, unfolded Let_def d list.map responsibility_start_root]
  from t have a: "\<exists>s'. em_step scipy start_root = Inr s' \<and> mu (parameters_updated s') = Fin 3 \<and>
            sigma (parameters_updated s') = Fin 2"
    by (simp add: py_sum_def fsub_def fpow2_def)
  have ne': "data start_raise \<noteq> []" by (simp add: start_raise_eq)
  have d': "data start_raise = [Fin (- 1), Fin 0]" by (simp add: start_raise_eq)
  have neg: "r_zero / ((1 + r_zero) * (1 + r_zero)) < 0"
    using r_zero_bounds by (simp add: divide_neg_pos)
  note t' = mu_sigma_update[OF ne', of scipy, unfolded Let_def d' list.map
      responsibility_start_raise_below responsibility_start_raise_zero
      mean_start_raise variance_start_raise pyfloat.case]
  from t' neg have b: "em_step scipy start_raise = Inl ValueError" by simp
  from ne a ne' b show ?thesis by simp
qed

text \<open>
  C4, as amended. In an EM step that completes, the live densities are first refreshed to
  the new mu', sigma' and beta', and the candidate proportion is then the number of data
  points whose Gaussian log-density exceeds their exponential log-density, divided by the
  sample size: a hard 0/1 count. Before the comparison each log-density goes through
  \<open>np.nan_to_num\<close>, which replaces NaN by 0, positive infinity by the largest finite
  double and negative infinity by the most negative finite double.
\<close>

theorem proportion_update_hard_count:
  assumes "em_step P s = Inr s'"
  shows "proportion (parameters_updated s') =
           Fin (real (length (filter
                  (\<lambda>x. fgt (nan_to_num (norm_logpdf P
                               \<lparr>loc = mu (parameters_updated s'), scale = sigma (parameters_updated s')\<rparr> x))
                            (nan_to_num (expon_logpdf P
                               \<lparr>loc = exp_loc s, scale = beta (parameters_updated s')\<rparr> x)))
                  (data s)))
                / real (length (data s)))
         \<and> norm_rv s' = \<lparr>loc = mu (parameters_updated s'), scale = sigma (parameters_updated s')\<rparr>
         \<and> expon s' = \<lparr>loc = exp_loc s, scale = beta (parameters_updated s')\<rparr>"
proof -
  have ne: "data s \<noteq> []" using assms by (rule em_step_Inr_data)
  show ?thesis
    using assms ne
    by (auto simp: em_step_nonempty Let_def py_sum_of_bool split: sum.splits)
qed

theorem proportion_update_hard_count_witness:
  "em_step scipy start_zero = Inr start_zero_1
   \<and> proportion (parameters_updated start_zero_1) = Fin 1
   \<and> norm_rv start_zero_1 = \<lparr>loc = NaN, scale = NaN\<rparr>
   \<and> expon start_zero_1 = \<lparr>loc = Fin 0, scale = Fin 1\<rparr>"
proof -
  note t = proportion_update_hard_count[OF em_step_start_zero]
  have p: "proportion (parameters_updated start_zero_1) = Fin 1"
    using t[THEN conjunct1]
    by (simp add: start_zero_1_def start_zero_eq scipy_sel scipy_norm_logpdf_def
        scipy_expon_logpdf_def fsub_def dbl_max_pos)
  have n: "norm_rv start_zero_1 = \<lparr>loc = NaN, scale = NaN\<rparr>"
    using t[THEN conjunct2, THEN conjunct1] by (simp add: start_zero_1_def)
  have e: "expon start_zero_1 = \<lparr>loc = Fin 0, scale = Fin 1\<rparr>"
    using t[THEN conjunct2, THEN conjunct2] by (simp add: start_zero_1_def start_zero_eq)
  from em_step_start_zero p n e show ?thesis by simp
qed

text \<open>
  C4, as stated, fails. Start at proportion 0 with the data \<open>[-1, 3]\<close> and the
  exponential location 0. The step sets beta' to 1 and mu', sigma' to NaN, so the
  Gaussian log-density is NaN (0 after \<open>nan_to_num\<close>) and the exponential log-density
  is \<open>-inf\<close> at \<open>-1\<close> and \<open>-3\<close> at \<open>3\<close>. The code compares 0 with the most negative
  finite double at \<open>-1\<close> and counts both points: the proportion is 1. With every
  non-finite log-density counted as 0 the point \<open>-1\<close> is not counted: 1/2.
\<close>

theorem proportion_update_counterexample:
  "em_step scipy start_zero = Inr start_zero_1
   \<and> proportion (parameters_updated start_zero_1) = Fin 1
   \<and> proportion_as_specified scipy start_zero_1 = Fin (1 / 2)
   \<and> proportion (parameters_updated start_zero_1) \<noteq> proportion_as_specified scipy start_zero_1"
proof -
  have a: "proportion (parameters_updated start_zero_1) = Fin 1"
    by (simp add: start_zero_1_def)
  have b: "proportion_as_specified scipy start_zero_1 = Fin (1 / 2)"
    by (simp add: proportion_as_specified_def start_zero_1_def scipy_sel scipy_norm_logpdf_def
        scipy_expon_logpdf_def fsub_def)
  from em_step_start_zero a b show ?thesis by simp
qed

text \<open>
  C5. For an estimator with \<open>max_iterations \<ge> 1\<close>, \<open>fit\<close> always returns. When it
  returns normally after \<open>n\<close> EM steps, then \<open>1 \<le> n \<le> max_iterations\<close>, the result is
  the state after these \<open>n\<close> steps with the candidate committed (so the committed
  parameters equal the candidate). After each of the steps \<open>1, ..., n - 1\<close> the distance
  \<open>max_parameter_difference\<close> between the committed and the candidate parameter set
  exceeded the tolerance; after step \<open>n\<close> either the bound is reached or that distance
  does not exceed the tolerance. The only errors \<open>fit\<close> can raise are those an EM step
  raises, among the first \<open>max_iterations\<close> steps: reaching the bound raises nothing.
\<close>

theorem fit_bounded_steps:
  assumes "1 \<le> max_iterations s"
  shows "(\<forall>e. fit P s = Inl e \<longrightarrow>
            (\<exists>k u. int k < max_iterations s \<and> em_steps P k s = Inr u \<and> em_step P u = Inl e))
       \<and> (\<forall>s'. fit P s = Inr s' \<longrightarrow>
            (\<exists>n t. fit_count P s = Inr (int n, s') \<and> 1 \<le> n \<and> int n \<le> max_iterations s \<and>
               em_steps P n s = Inr t \<and> s' = sync_parameters t \<and>
               \<not> (int n < max_iterations s \<and>
                  (\<exists>d. max_parameter_difference (parameters t) (parameters_updated t) = Inr d \<and>
                       fgt d (convergence_tolerance t))) \<and>
               (\<forall>k. 1 \<le> k \<and> k < n \<longrightarrow>
                  (\<exists>u d. em_steps P k s = Inr u \<and>
                     max_parameter_difference (parameters u) (parameters_updated u) = Inr d \<and>
                     fgt d (convergence_tolerance u))) \<and>
               parameters s' = parameters_updated s'))"
proof (intro conjI allI impI)
  fix e assume "fit P s = Inl e"
  then have "fit_count P s = Inl e" by (auto simp: fit_def split: sum.splits)
  from fit_count_Inl[OF this] obtain k u where
    k: "k = 0 \<or> int k < max_iterations s" "em_steps P k s = Inr u" "em_step P u = Inl e"
    by blast
  from k(1) assms have "int k < max_iterations s" by auto
  with k(2,3) show "\<exists>k u. int k < max_iterations s \<and> em_steps P k s = Inr u \<and> em_step P u = Inl e"
    by blast
next
  fix s' assume "fit P s = Inr s'"
  then obtain m where m: "fit_count P s = Inr (m, s')" by (auto simp: fit_def split: sum.splits)
  from fit_count_Inr[OF assms m] obtain n t where
    nt: "m = int n" "1 \<le> n" "int n \<le> max_iterations s" "em_steps P n s = Inr t"
      "s' = sync_parameters t" "\<not> (int n < max_iterations s \<and> not_converged t)"
      "\<forall>k. 1 \<le> k \<and> k < n \<longrightarrow> (\<exists>u. em_steps P k s = Inr u \<and> not_converged u)"
    by blast
  have p: "parameters s' = parameters_updated s'" using nt(5) by (simp add: sync_parameters_def)
  have stop: "\<not> (int n < max_iterations s \<and>
                  (\<exists>d. max_parameter_difference (parameters t) (parameters_updated t) = Inr d \<and>
                       fgt d (convergence_tolerance t)))"
    using nt(6) by (simp add: not_converged_iff)
  have before: "\<forall>k. 1 \<le> k \<and> k < n \<longrightarrow>
                  (\<exists>u d. em_steps P k s = Inr u \<and>
                     max_parameter_difference (parameters u) (parameters_updated u) = Inr d \<and>
                     fgt d (convergence_tolerance u))"
    using nt(7) by (simp add: not_converged_iff)
  from m nt(1-5) stop before p
  show "\<exists>n t. fit_count P s = Inr (int n, s') \<and> 1 \<le> n \<and> int n \<le> max_iterations s \<and>
               em_steps P n s = Inr t \<and> s' = sync_parameters t \<and>
               \<not> (int n < max_iterations s \<and>
                  (\<exists>d. max_parameter_difference (parameters t) (parameters_updated t) = Inr d \<and>
                       fgt d (convergence_tolerance t))) \<and>
               (\<forall>k. 1 \<le> k \<and> k < n \<longrightarrow>
                  (\<exists>u d. em_steps P k s = Inr u \<and>
                     max_parameter_difference (parameters u) (parameters_updated u) = Inr d \<and>
                     fgt d (convergence_tolerance u))) \<and>
               parameters s' = parameters_updated s'"
    by blast
qed

theorem fit_bounded_steps_witness:
  "1 \<le> max_iterations start_still
   \<and> fit scipy start_still = Inr (sync_parameters start_still_2)
   \<and> fit_count scipy start_still = Inr (2, sync_parameters start_still_2)
   \<and> 2 < max_iterations start_still
   \<and> em_steps scipy 1 start_still = Inr start_still_1
   \<and> max_parameter_difference (parameters start_still_1) (parameters_updated start_still_1)
       = Inr (Fin 4)
   \<and> fgt (Fin 4) (convergence_tolerance start_still_1)
   \<and> em_steps scipy 2 start_still = Inr start_still_2
   \<and> max_parameter_difference (parameters start_still_2) (parameters_updated start_still_2)
       = Inr (Fin 0)
   \<and> \<not> (\<exists>d. max_parameter_difference (parameters start_still_2) (parameters_updated start_still_2)
              = Inr d \<and> fgt d (convergence_tolerance start_still_2))
   \<and> 1 \<le> max_iterations start_zero
   \<and> fit scipy start_zero = Inr (sync_parameters start_zero_2)
   \<and> fit_count scipy start_zero = Inr (2, sync_parameters start_zero_2)
   \<and> max_iterations start_zero = 2
   \<and> parameters (sync_parameters start_zero_2) = parameters_updated (sync_parameters start_zero_2)
   \<and> 1 \<le> max_iterations (mixture_init [] (Fin 0) 100 (Fin (1 / 1000)) Map.empty)
   \<and> fit scipy (mixture_init [] (Fin 0) 100 (Fin (1 / 1000)) Map.empty) = Inl ValueError
   \<and> (\<exists>k u. int k < max_iterations (mixture_init [] (Fin 0) 100 (Fin (1 / 1000)) Map.empty) \<and>
          em_steps scipy k (mixture_init [] (Fin 0) 100 (Fin (1 / 1000)) Map.empty) = Inr u \<and>
          em_step scipy u = Inl ValueError)"
proof -
  have hs: "1 \<le> max_iterations start_still" "2 < max_iterations start_still"
    by (simp_all add: start_still_eq)
  have fs: "fit scipy start_still = Inr (sync_parameters start_still_2)"
    by (simp add: fit_def fit_count_start_still)
  have e1: "em_steps scipy 1 start_still = Inr start_still_1"
    by (simp add: em_step_start_still)
  have e2: "em_steps scipy 2 start_still = Inr start_still_2"
    by (simp add: numeral_2_eq_2 em_step_start_still em_step_start_still_1)
  have g: "fgt (Fin 4) (convergence_tolerance start_still_1)"
    by (simp add: start_still_1_def)
  from fit_bounded_steps[OF hs(1), of scipy, THEN conjunct2, rule_format, OF fs]
  obtain n t where
    nt: "fit_count scipy start_still = Inr (int n, sync_parameters start_still_2)"
      "em_steps scipy n start_still = Inr t"
      "\<not> (int n < max_iterations start_still \<and>
          (\<exists>d. max_parameter_difference (parameters t) (parameters_updated t) = Inr d \<and>
               fgt d (convergence_tolerance t)))"
    by blast
  from nt(1) fit_count_start_still have n: "n = 2" by simp
  with nt(2) e2 have t: "t = start_still_2" by simp
  from nt(3) n t hs(2)
  have stop: "\<not> (\<exists>d. max_parameter_difference (parameters start_still_2)
      (parameters_updated start_still_2) = Inr d \<and> fgt d (convergence_tolerance start_still_2))"
    by simp
  have h: "1 \<le> max_iterations start_zero" "max_iterations start_zero = 2"
    by (simp_all add: start_zero_eq)
  have f: "fit scipy start_zero = Inr (sync_parameters start_zero_2)"
    by (simp add: fit_def fit_count_start_zero)
  from fit_bounded_steps[OF h(1), of scipy, THEN conjunct2, rule_format, OF f]
  have c: "parameters (sync_parameters start_zero_2) = parameters_updated (sync_parameters start_zero_2)"
    by blast
  have h': "1 \<le> max_iterations (mixture_init [] (Fin 0) 100 (Fin (1 / 1000)) Map.empty)"
    by (simp add: mixture_init_def)
  have f': "fit scipy (mixture_init [] (Fin 0) 100 (Fin (1 / 1000)) Map.empty) = Inl ValueError"
    by (simp add: fit_def fit_count_def em_step_empty mixture_init_def)
  from fit_bounded_steps[OF h', of scipy, THEN conjunct1, rule_format, OF f']
  have e': "\<exists>k u. int k < max_iterations (mixture_init [] (Fin 0) 100 (Fin (1 / 1000)) Map.empty) \<and>
          em_steps scipy k (mixture_init [] (Fin 0) 100 (Fin (1 / 1000)) Map.empty) = Inr u \<and>
          em_step scipy u = Inl ValueError" .
  from hs fs fit_count_start_still e1 distance_start_still_1 g e2 distance_start_still_2 stop
    h f fit_count_start_zero c h' f' e'
  show ?thesis by simp
qed

text \<open>
  C6. In every state, \<open>pdf(x)\<close> is
  \<open>(1 - proportion) * ExponentialPdf(x) + proportion * GaussianPdf(x)\<close> with the
  proportion of the committed parameter set and the two live densities; it raises
  nothing. Whenever the live densities agree with the committed parameters, they are
  \<open>ExponentialPdf(x; location, beta)\<close> and \<open>GaussianPdf(x; mu, sigma)\<close> of the committed
  beta, mu and sigma; they do agree after construction and after \<open>fit\<close> has returned.
\<close>

theorem pdf_mixture_density:
  "pdf P s x =
     fadd (fmul (fsub (Fin 1) (proportion (parameters s))) (expon_pdf P (expon s) x))
          (fmul (proportion (parameters s)) (norm_pdf P (norm_rv s) x))
   \<and> (densities_match (parameters s) s \<longrightarrow>
        pdf P s x =
          fadd (fmul (fsub (Fin 1) (proportion (parameters s)))
                     (expon_pdf P \<lparr>loc = exp_loc s, scale = beta (parameters s)\<rparr> x))
               (fmul (proportion (parameters s))
                     (norm_pdf P \<lparr>loc = mu (parameters s), scale = sigma (parameters s)\<rparr> x)))
   \<and> densities_match (parameters (mixture_init dat el max_iters tol kwargs))
        (mixture_init dat el max_iters tol kwargs)
   \<and> (fit P s0 = Inr s \<longrightarrow> densities_match (parameters s) s)"
  by (auto simp: pdf_def densities_match_def mixture_init_def dest: fit_densities_match)

theorem pdf_mixture_density_witness:
  "fit scipy start_one = Inr (sync_parameters start_one_1)
   \<and> densities_match (parameters (sync_parameters start_one_1)) (sync_parameters start_one_1)
   \<and> pdf scipy (sync_parameters start_one_1) (Fin 3) =
       fadd (fmul (fsub (Fin 1) (Fin 0)) (scipy_expon_pdf \<lparr>loc = Fin 0, scale = NaN\<rparr> (Fin 3)))
            (fmul (Fin 0) (scipy_norm_pdf \<lparr>loc = Fin 2, scale = Fin 1\<rparr> (Fin 3)))
   \<and> pdf scipy (sync_parameters start_one_1) (Fin 3) = NaN"
proof -
  have f: "fit scipy start_one = Inr (sync_parameters start_one_1)"
    by (simp add: fit_def fit_count_start_one)
  note t = pdf_mixture_density[of scipy "sync_parameters start_one_1" "Fin 3" _ _ _ _ _ start_one]
  from t f have m: "densities_match (parameters (sync_parameters start_one_1))
      (sync_parameters start_one_1)" by blast
  with t have p: "pdf scipy (sync_parameters start_one_1) (Fin 3) =
       fadd (fmul (fsub (Fin 1) (Fin 0)) (scipy_expon_pdf \<lparr>loc = Fin 0, scale = NaN\<rparr> (Fin 3)))
            (fmul (Fin 0) (scipy_norm_pdf \<lparr>loc = Fin 2, scale = Fin 1\<rparr> (Fin 3)))"
    by (simp add: sync_parameters_def start_one_1_def scipy_sel)
  have v: "pdf scipy (sync_parameters start_one_1) (Fin 3) = NaN"
    unfolding p by (simp add: scipy_expon_pdf_def fsub_def)
  from f m p v show ?thesis by simp
qed

text \<open>
  C7. The two guards of the responsibility computation compare a density with
  \<open>np.nan\<close> using \<open>==\<close>, which is false for every value, NaN included: neither guard
  is ever taken. When a density is NaN the function therefore does not return the
  guard's 1 or 0; it goes on to the proportion test and returns 0 or the NaN quotient.
\<close>

theorem nan_guards_unreachable:
  "\<not> feq (expon_pdf P (expon s) x) NaN \<and> \<not> feq (norm_pdf P (norm_rv s) x) NaN \<and>
   (expon_pdf P (expon s) x = NaN \<or> norm_pdf P (norm_rv s) x = NaN \<longrightarrow>
      expectation_is_gaussian P s x =
        (if feq (proportion (parameters s)) (Fin 0) then Fin 0 else NaN))"
  by (auto simp: expectation_is_gaussian_eq feq_NaN_right fadd_NaN_right fmul_NaN_right
      fdiv_NaN_right)

theorem nan_guards_unreachable_witness:
  "norm_pdf scipy (norm_rv (sync_parameters start_zero_1)) (Fin 3) = NaN
   \<and> \<not> feq (norm_pdf scipy (norm_rv (sync_parameters start_zero_1)) (Fin 3)) NaN
   \<and> expectation_is_gaussian scipy (sync_parameters start_zero_1) (Fin 3) = NaN"
proof -
  have n: "norm_pdf scipy (norm_rv (sync_parameters start_zero_1)) (Fin 3) = NaN"
    by (simp add: sync_parameters_def start_zero_1_def scipy_sel scipy_norm_pdf_def)
  note t = nan_guards_unreachable[of scipy "sync_parameters start_zero_1" "Fin 3"]
  from t have g: "\<not> feq (norm_pdf scipy (norm_rv (sync_parameters start_zero_1)) (Fin 3)) NaN"
    by blast
  from t n have "expectation_is_gaussian scipy (sync_parameters start_zero_1) (Fin 3) =
      (if feq (proportion (parameters (sync_parameters start_zero_1))) (Fin 0) then Fin 0 else NaN)"
    by blast
  then have r: "expectation_is_gaussian scipy (sync_parameters start_zero_1) (Fin 3) = NaN"
    by (simp add: sync_parameters_def start_zero_1_def)
  from n g r show ?thesis by simp
qed

text \<open>
  C8, as amended. \<open>max_parameter_difference\<close> is symmetric for all parameter sets. For
  parameter sets whose fields are all finite it returns the maximum of \<open>|p_i - q_i|\<close>
  over the four aligned fields (beta, mu, sigma, proportion), and it returns zero if and
  only if all four corresponding fields are equal.
\<close>

theorem parameter_distance_properties:
  "max_parameter_difference p q = max_parameter_difference q p
   \<and> max_parameter_difference
       \<lparr>beta = Fin b, mu = Fin m, sigma = Fin sg, proportion = Fin pr\<rparr>
       \<lparr>beta = Fin b', mu = Fin m', sigma = Fin sg', proportion = Fin pr'\<rparr>
     = Inr (Fin (Max {\<bar>b - b'\<bar>, \<bar>m - m'\<bar>, \<bar>sg - sg'\<bar>, \<bar>pr - pr'\<bar>}))
   \<and> (max_parameter_difference
         \<lparr>beta = Fin b, mu = Fin m, sigma = Fin sg, proportion = Fin pr\<rparr>
         \<lparr>beta = Fin b', mu = Fin m', sigma = Fin sg', proportion = Fin pr'\<rparr>
       = Inr (Fin 0)
      \<longleftrightarrow> b = b' \<and> m = m' \<and> sg = sg' \<and> pr = pr')"
proof -
  have z: "Max {\<bar>b - b'\<bar>, \<bar>m - m'\<bar>, \<bar>sg - sg'\<bar>, \<bar>pr - pr'\<bar>} = 0
      \<longleftrightarrow> b = b' \<and> m = m' \<and> sg = sg' \<and> pr = pr'"
    by (auto simp: max_def split: if_splits)
  show ?thesis
    using z by (simp add: max_parameter_difference_finite max_parameter_difference_commute)
qed

theorem parameter_distance_properties_witness:
  "max_parameter_difference
     \<lparr>beta = Fin 1, mu = Fin 0, sigma = Fin 100, proportion = Fin (1 / 2)\<rparr>
     \<lparr>beta = Fin 2, mu = Fin 50, sigma = Fin 3, proportion = Fin (2 / 5)\<rparr>
   = Inr (Fin 97)
   \<and> max_parameter_difference
     \<lparr>beta = Fin 2, mu = Fin 50, sigma = Fin 3, proportion = Fin (2 / 5)\<rparr>
     \<lparr>beta = Fin 1, mu = Fin 0, sigma = Fin 100, proportion = Fin (1 / 2)\<rparr>
   = Inr (Fin 97)"
proof -
  note t = parameter_distance_properties[of
      "\<lparr>beta = Fin 1, mu = Fin 0, sigma = Fin 100, proportion = Fin (1 / 2)\<rparr>"
      "\<lparr>beta = Fin 2, mu = Fin 50, sigma = Fin 3, proportion = Fin (2 / 5)\<rparr>"
      1 0 100 "1 / 2" 2 50 3 "2 / 5"]
  have a: "max_parameter_difference
     \<lparr>beta = Fin 1, mu = Fin 0, sigma = Fin 100, proportion = Fin (1 / 2)\<rparr>
     \<lparr>beta = Fin 2, mu = Fin 50, sigma = Fin 3, proportion = Fin (2 / 5)\<rparr>
   = Inr (Fin 97)" using t[THEN conjunct2, THEN conjunct1] by simp
  show ?thesis using a t[THEN conjunct1] by simp
qed

text \<open>
  C8, as stated, fails on a parameter set with a NaN field. With mu = NaN on one side
  the list of differences is \<open>[0, NaN, 0, 0]\<close>; Python's \<open>max\<close> keeps the first
  element because \<open>NaN > 0\<close> is false, so the distance is zero although the two mu
  fields differ.
\<close>

theorem parameter_distance_nan_counterexample:
  "max_parameter_difference
     \<lparr>beta = Fin 1, mu = NaN, sigma = Fin 100, proportion = Fin (1 / 2)\<rparr>
     \<lparr>beta = Fin 1, mu = Fin 0, sigma = Fin 100, proportion = Fin (1 / 2)\<rparr>
   = Inr (Fin 0)
   \<and> mu \<lparr>beta = Fin 1, mu = NaN, sigma = Fin 100, proportion = Fin (1 / 2)\<rparr>
     \<noteq> mu \<lparr>beta = Fin 1, mu = Fin 0, sigma = Fin 100, proportion = Fin (1 / 2)\<rparr>"
  by (simp add: max_parameter_difference_def as_list_def fsub_def)

text \<open>
  C9. After construction, and after every EM step that completes, the live Gaussian
  density has the candidate's mu as location and its sigma as scale, and the live
  exponential density has the fixed location offset (which a step never changes) as
  location and the candidate's beta as scale.
\<close>

theorem densities_follow_candidate:
  "densities_match (parameters_updated (mixture_init dat el max_iters tol kwargs))
     (mixture_init dat el max_iters tol kwargs)
   \<and> (em_step P s = Inr s' \<longrightarrow> densities_match (parameters_updated s') s' \<and> exp_loc s' = exp_loc s)"
proof -
  have "em_step P s = Inr s' \<Longrightarrow> densities_match (parameters_updated s') s' \<and> exp_loc s' = exp_loc s"
  proof -
    assume a: "em_step P s = Inr s'"
    then have ne: "data s \<noteq> []" by (rule em_step_Inr_data)
    show ?thesis using a ne
      by (auto simp: em_step_nonempty Let_def densities_match_def split: sum.splits)
  qed
  then show ?thesis by (simp add: mixture_init_def densities_match_def)
qed

theorem densities_follow_candidate_witness:
  "em_step scipy start_one = Inr start_one_1
   \<and> densities_match (parameters_updated start_one_1) start_one_1
   \<and> norm_rv start_one_1 = \<lparr>loc = Fin 2, scale = Fin 1\<rparr>
   \<and> densities_match (parameters_updated start_one) start_one"
proof -
  note t = densities_follow_candidate[of "[Fin 1, Fin 3]" "Fin 0" 100 "Fin (1 / 1000)"
      "[''proportion'' \<mapsto> Fin 1]" scipy start_one start_one_1]
  from t em_step_start_one have m: "densities_match (parameters_updated start_one_1) start_one_1"
    by blast
  then have n: "norm_rv start_one_1 = \<lparr>loc = Fin 2, scale = Fin 1\<rparr>"
    by (simp add: densities_match_def start_one_1_def)
  from t have i: "densities_match (parameters_updated start_one) start_one"
    by (simp add: start_one_def)
  from em_step_start_one m n i show ?thesis by simp
qed

text \<open>
  C10. On non-empty data the proportion update writes \<open>k / N\<close> into the candidate,
  where \<open>k\<close> is the number of data points that satisfy the log-density comparison and
  \<open>N\<close> the sample size; so \<open>0 \<le> k \<le> N\<close>, and after every EM step that completes the
  candidate proportion is a finite number in \<open>[0, 1]\<close>, whatever beta, mu and sigma have
  become.
\<close>

theorem proportion_in_unit_interval:
  "(data s \<noteq> [] \<longrightarrow>
      (let k = length (filter (\<lambda>x. fgt (nan_to_num (norm_logpdf P (norm_rv s) x))
                                       (nan_to_num (expon_logpdf P (expon s) x))) (data s));
           n = length (data s)
       in update_proportion P s =
            Inr (s\<lparr>parameters_updated := (parameters_updated s)\<lparr>proportion := Fin (real k / real n)\<rparr>\<rparr>)
          \<and> k \<le> n \<and> 0 \<le> real k / real n \<and> real k / real n \<le> 1))
   \<and> (em_step P s = Inr s' \<longrightarrow>
        (\<exists>r. proportion (parameters_updated s') = Fin r \<and> 0 \<le> r \<and> r \<le> 1))"
proof -
  have a: "data s \<noteq> [] \<longrightarrow>
      (let k = length (filter (\<lambda>x. fgt (nan_to_num (norm_logpdf P (norm_rv s) x))
                                       (nan_to_num (expon_logpdf P (expon s) x))) (data s));
           n = length (data s)
       in update_proportion P s =
            Inr (s\<lparr>parameters_updated := (parameters_updated s)\<lparr>proportion := Fin (real k / real n)\<rparr>\<rparr>)
          \<and> k \<le> n \<and> 0 \<le> real k / real n \<and> real k / real n \<le> 1)"
    by (auto simp: Let_def update_proportion_nonempty py_sum_of_bool divide_le_eq)
  have b: "em_step P s = Inr s' \<longrightarrow>
        (\<exists>r. proportion (parameters_updated s') = Fin r \<and> 0 \<le> r \<and> r \<le> 1)"
  proof
    assume e: "em_step P s = Inr s'"
    then have ne: "data s \<noteq> []" by (rule em_step_Inr_data)
    show "\<exists>r. proportion (parameters_updated s') = Fin r \<and> 0 \<le> r \<and> r \<le> 1"
      using e ne
      by (auto simp: em_step_nonempty Let_def py_sum_of_bool divide_le_eq split: sum.splits)
  qed
  from a b show ?thesis by blast
qed

theorem proportion_in_unit_interval_witness:
  "data start_zero_1 \<noteq> []
   \<and> update_proportion scipy start_zero_1 =
       Inr (start_zero_1\<lparr>parameters_updated := (parameters_updated start_zero_1)\<lparr>proportion := Fin 1\<rparr>\<rparr>)
   \<and> em_step scipy start_zero_1 = Inr start_zero_2
   \<and> (\<exists>r. proportion (parameters_updated start_zero_2) = Fin r \<and> 0 \<le> r \<and> r \<le> 1)"
proof -
  have ne: "data start_zero_1 \<noteq> []" by (simp add: start_zero_1_def)
  note t = proportion_in_unit_interval[of start_zero_1 scipy start_zero_2]
  from t ne have "update_proportion scipy start_zero_1 =
       Inr (start_zero_1\<lparr>parameters_updated := (parameters_updated start_zero_1)
         \<lparr>proportion := Fin (real (length (filter
             (\<lambda>x. fgt (nan_to_num (norm_logpdf scipy (norm_rv start_zero_1) x))
                       (nan_to_num (expon_logpdf scipy (expon start_zero_1) x))) (data start_zero_1)))
           / real (length (data start_zero_1)))\<rparr>\<rparr>)"
    by (simp add: Let_def)
  then have u: "update_proportion scipy start_zero_1 =
       Inr (start_zero_1\<lparr>parameters_updated := (parameters_updated start_zero_1)\<lparr>proportion := Fin 1\<rparr>\<rparr>)"
    by (simp add: start_zero_1_def scipy_sel scipy_norm_logpdf_def scipy_expon_logpdf_def
        fsub_def dbl_max_pos)
  from t em_step_start_zero_1
  have r: "\<exists>r. proportion (parameters_updated start_zero_2) = Fin r \<and> 0 \<le> r \<and> r \<le> 1"
    by blast
  from ne u em_step_start_zero_1 r show ?thesis by simp
qed

end
